theory Spec2Isabelle
  imports Main "HOL-Library.AList" "HOL-Library.Word"
begin

section \<open>CalDom 1.0.6: the reactive core of src/src/caldom.js\<close>

text \<open>
  A shallow embedding of the functions of \<^verbatim>\<open>caldom.js\<close> that the reactive core is made of:
  \<^verbatim>\<open>watch\<close>, \<^verbatim>\<open>react\<close>, \<^verbatim>\<open>_replace\<close>, \<^verbatim>\<open>_copyProps\<close>, \<^verbatim>\<open>insertBefore\<close>, \<^verbatim>\<open>init\<close> and the
  single/multiple accessors. The script mutates objects that are shared by reference (DOM
  nodes, CalDom instances, state objects), so the model is a store: every object is named
  by a reference (a natural number) and a \<open>world\<close> maps references to their current
  contents. Every function takes the world and returns the new one. A JavaScript exception
  is the left injection of a sum: the error, and the world as it is when the exception is
  thrown (what the script did before stays done).
\<close>

subsection \<open>References, values and errors\<close>

type_synonym nid = nat  \<comment> \<open>a DOM node\<close>
type_synonym cid = nat  \<comment> \<open>a CalDom instance\<close>
type_synonym oid = nat  \<comment> \<open>a plain object: a state object, a changed-key ledger\<close>
type_synonym pid = nat  \<comment> \<open>a Proxy object\<close>
type_synonym fid = nat  \<comment> \<open>a function supplied by the user of the library\<close>

text \<open>
  The values a state object holds. \<open>Obj\<close> is a reference to an ordinary object (a literal,
  an array); \<open>CalDomObj\<close> is a reference to an object for which \<^verbatim>\<open>instanceof CalDom\<close> is
  true. Functions and Proxy objects stored inside a state object are outside the model.
\<close>

datatype jsval = Undefined | Null | Bool bool | Num int | Str string | Obj oid | CalDomObj oid

datatype error = TypeError | HierarchyRequestError | NotFoundError | NoAnswer

text \<open>\<open>NoAnswer\<close> is no exception of the script: it is what a recursion of the model
  returns when it did not come to an answer (a fuel-bounded recursion that was given too
  little fuel, a walk up a cyclic parent chain, which no DOM has).\<close>

fun bindE :: "'e + 'a \<Rightarrow> ('a \<Rightarrow> 'e + 'b) \<Rightarrow> 'e + 'b" where
  "bindE (Inl e) f = Inl e"
| "bindE (Inr x) f = f x"

subsection \<open>DOM nodes\<close>

text \<open>
  The node kinds the reconciler meets: elements (\<^verbatim>\<open>nodeType\<close> 1), text nodes (3) and
  comments (8). \<^verbatim>\<open>tagName\<close> is undefined (\<open>None\<close>) on a node that is no element,
  \<^verbatim>\<open>nodeValue\<close> is null (\<open>None\<close>) on an element. \<open>childNodes\<close> and \<open>parentNode\<close> are the
  tree; \<open>node_h\<close> is the expando \<^verbatim>\<open>_h\<close> (the owning CalDom instance), \<open>node_original_root\<close>
  the expando \<^verbatim>\<open>_original_root\<close>.

  The five properties \<^verbatim>\<open>_copyProps\<close> copies are typed as the DOM types them: \<^verbatim>\<open>value\<close> a
  string, \<^verbatim>\<open>checked\<close>, \<^verbatim>\<open>indeterminate\<close> and \<^verbatim>\<open>selected\<close> booleans, \<^verbatim>\<open>_data\<close> an object
  reference, each \<open>None\<close> where the node has no such property (undefined). On these
  types the loose inequality \<^verbatim>\<open>!=\<close> of the script is \<open>\<noteq>\<close>. \<open>proto_has_value\<close> is
  \<^verbatim>\<open>Object.getPrototypeOf(node).hasOwnProperty("value")\<close>.
\<close>

datatype node_kind = Element | Text | Comment

fun nodeType :: "node_kind \<Rightarrow> nat" where
  "nodeType Element = 1"
| "nodeType Text = 3"
| "nodeType Comment = 8"

record node =
  kind :: node_kind
  tagName :: "string option"
  nodeValue :: "string option"
  attributes :: "(string \<times> string) list"
  childNodes :: "nid list"
  parentNode :: "nid option"
  node_h :: "cid option"
  node_original_root :: "nid option"
  proto_has_value :: bool
  prop_value :: "string option"
  prop_checked :: "bool option"
  prop_indeterminate :: "bool option"
  prop_selected :: "bool option"
  prop_data :: "oid option"

subsection \<open>CalDom instances\<close>

text \<open>
  The fields of a CalDom instance that the modelled functions read or write. \<open>multiple\<close>
  says whether \<^verbatim>\<open>_setMultipleMode\<close> has replaced the eight accessors \<^verbatim>\<open>each\<close>, \<^verbatim>\<open>map\<close>,
  \<^verbatim>\<open>find\<close>, \<^verbatim>\<open>prop\<close>, \<^verbatim>\<open>attr\<close>, \<^verbatim>\<open>css\<close>, \<^verbatim>\<open>addClass\<close>, \<^verbatim>\<open>removeClass\<close> of the prototype (the
  single versions) by the multiple versions. \<open>watched\<close> is undefined on the prototype
  (\<open>None\<close>). \<open>changed_keys\<close> is \<^verbatim>\<open>_watch_state_changed_keys\<close>: a reference, since the
  prototype's object is shared by every instance until \<^verbatim>\<open>_didUpdate\<close> gives the instance
  an object of its own. \<open>z_handle\<close> is \<^verbatim>\<open>_z\<close>, \<open>v_staged\<close> is \<^verbatim>\<open>_v\<close>, \<open>mounted\<close> the
  truthiness of \<^verbatim>\<open>_mounted\<close>. \<open>render\<close>, \<open>update\<close> and the five hooks hold the function the
  user configured, if any.
\<close>

datatype state_ref = NoState | Plain jsval | Watched pid

record caldom =
  elems :: "nid list"
  multiple :: bool
  watched :: "bool option"
  changed_keys :: oid
  change_count :: nat
  z_handle :: "nat option"
  v_staged :: "nid list option"
  mounted :: bool
  state :: state_ref
  render :: "fid option"
  update :: "fid option"
  willMount :: "fid option"
  didMount :: "fid option"
  willUnmount :: "fid option"
  didUnmount :: "fid option"
  didUpdate :: "fid option"

subsection \<open>The world\<close>

text \<open>
  What the script does to its host is recorded in \<open>trace\<close>: every DOM mutation it calls,
  every lifecycle hook it fires (the library ignores what a hook returns, so a hook is an
  event) and every animation frame it requests.
\<close>

datatype hook = WillMount | DidMount | WillUnmount | DidUnmount | DidUpdate

datatype event =
    Hook hook cid "bool option"
  | AppendChild nid nid
  | InsertBefore nid nid "nid option"
  | RemoveChild nid nid
  | ReplaceChild nid nid nid
  | SetAttribute nid string string
  | RemoveAttribute nid string
  | SetNodeValue nid "string option"
  | SetProp nid string
  | RequestAnimationFrame nat cid
  | StateCallback cid string bool

record proxy =
  target :: oid
  handler :: cid

record world =
  nodes :: "nid \<Rightarrow> node"
  comps :: "cid \<Rightarrow> caldom"
  objs :: "oid \<Rightarrow> (string \<rightharpoonup> jsval)"
  proxies :: "pid \<Rightarrow> proxy"
  next_ref :: nat
  raf_last :: nat
  raf_queue :: "(nat \<times> cid) list"
  document_root :: nid
  has_Proxy :: bool
  trace :: "event list"

definition emit :: "event \<Rightarrow> world \<Rightarrow> world" where
  "emit e w = w\<lparr>trace := trace w @ [e]\<rparr>"

text \<open>\<^verbatim>\<open>CalDom.prototype\<close>: what a field of an instance reads before the instance has a
  value of its own. The prototype's \<^verbatim>\<open>_watch_state_changed_keys\<close> is the object at
  reference 0.\<close>

definition prototype :: caldom where
  "prototype = \<lparr>elems = [], multiple = False, watched = None, changed_keys = 0,
     change_count = 0, z_handle = None, v_staged = None, mounted = False, state = NoState,
     render = None, update = None, willMount = None, didMount = None, willUnmount = None,
     didUnmount = None, didUpdate = None\<rparr>"

definition blank_node :: node where
  "blank_node = \<lparr>kind = Element, tagName = Some ''DIV'', nodeValue = None, attributes = [],
     childNodes = [], parentNode = None, node_h = None, node_original_root = None,
     proto_has_value = False, prop_value = None, prop_checked = None,
     prop_indeterminate = None, prop_selected = None, prop_data = None\<rparr>"

text \<open>A world with nothing in it: a page whose script has loaded and done nothing yet.
  The examples below are built from it.\<close>

definition world0 :: world where
  "world0 = \<lparr>nodes = (\<lambda>_. blank_node), comps = (\<lambda>_. prototype), objs = (\<lambda>_. Map.empty),
     proxies = (\<lambda>_. \<lparr>target = 0, handler = 0\<rparr>), next_ref = 1, raf_last = 0,
     raf_queue = [], document_root = 0, has_Proxy = True, trace = []\<rparr>"

subsection \<open>The DOM operations the script calls\<close>

text \<open>
  The host's side of the script, after the DOM standard, for the three node kinds above
  and element parents. \<^verbatim>\<open>setAttribute\<close> overwrites the value of an attribute in place or
  adds the attribute at the end. An insertion first checks that the parent is an element
  and that the node is no inclusive ancestor of the parent (HierarchyRequestError) and
  that the reference child is a child of the parent (NotFoundError), then takes the node
  out of its old parent. \<^verbatim>\<open>isEqualNode\<close> compares kind, name, value, attributes (as sets
  of name and value, with the same count) and the children pairwise.
\<close>

definition upd_node :: "nid \<Rightarrow> (node \<Rightarrow> node) \<Rightarrow> world \<Rightarrow> world" where
  "upd_node n f w = w\<lparr>nodes := (nodes w)(n := f (nodes w n))\<rparr>"

definition upd_comp :: "cid \<Rightarrow> (caldom \<Rightarrow> caldom) \<Rightarrow> world \<Rightarrow> world" where
  "upd_comp c f w = w\<lparr>comps := (comps w)(c := f (comps w c))\<rparr>"

definition getAttribute :: "world \<Rightarrow> nid \<Rightarrow> string \<Rightarrow> string option" where
  "getAttribute w n name = map_of (attributes (nodes w n)) name"

definition hasAttribute :: "world \<Rightarrow> nid \<Rightarrow> string \<Rightarrow> bool" where
  "hasAttribute w n name = (getAttribute w n name \<noteq> None)"

definition setAttribute :: "nid \<Rightarrow> string \<Rightarrow> string \<Rightarrow> world \<Rightarrow> world" where
  "setAttribute n name v w =
     emit (SetAttribute n name v)
       (upd_node n (\<lambda>x. x\<lparr>attributes := AList.update name v (attributes x)\<rparr>) w)"

definition removeAttribute :: "nid \<Rightarrow> string \<Rightarrow> world \<Rightarrow> world" where
  "removeAttribute n name w =
     emit (RemoveAttribute n name)
       (upd_node n (\<lambda>x. x\<lparr>attributes := AList.delete name (attributes x)\<rparr>) w)"

definition hasChildNodes :: "world \<Rightarrow> nid \<Rightarrow> bool" where
  "hasChildNodes w n = (childNodes (nodes w n) \<noteq> [])"

text \<open>\<^verbatim>\<open>node.children\<close>: the child nodes that are elements.\<close>

definition children :: "world \<Rightarrow> nid \<Rightarrow> nid list" where
  "children w n = filter (\<lambda>c. kind (nodes w c) = Element) (childNodes (nodes w n))"

text \<open>\<^verbatim>\<open>xs[i]\<close>, undefined out of range.\<close>

definition nth_opt :: "'a list \<Rightarrow> nat \<Rightarrow> 'a option" where
  "nth_opt xs i = (if i < length xs then Some (xs ! i) else None)"

text \<open>The setter of \<^verbatim>\<open>nodeValue\<close>: on a text node or a comment it replaces the data (null
  counts as the empty string), on an element it does nothing.\<close>

definition set_nodeValue :: "nid \<Rightarrow> string option \<Rightarrow> world \<Rightarrow> world" where
  "set_nodeValue n v w =
     emit (SetNodeValue n v)
       (if kind (nodes w n) = Element then w
        else upd_node n (\<lambda>x. x\<lparr>nodeValue := Some (case v of None \<Rightarrow> [] | Some s \<Rightarrow> s)\<rparr>) w)"

partial_function (option) is_inclusive_ancestor :: "(nid \<Rightarrow> nid option) \<Rightarrow> nid \<Rightarrow> nid \<Rightarrow> bool option" where
  "is_inclusive_ancestor par a n =
     (if a = n then Some True
      else (case par n of None \<Rightarrow> Some False | Some p \<Rightarrow> is_inclusive_ancestor par a p))"

definition parent_of :: "world \<Rightarrow> nid \<Rightarrow> nid option" where
  "parent_of w = (\<lambda>n. parentNode (nodes w n))"

text \<open>\<^verbatim>\<open>node.isConnected\<close>: the node's root is the document.\<close>

definition isNodeConnected :: "world \<Rightarrow> nid \<Rightarrow> bool option" where
  "isNodeConnected w n = is_inclusive_ancestor (parent_of w) (document_root w) n"

definition pre_insert_check :: "nid \<Rightarrow> nid \<Rightarrow> nid option \<Rightarrow> world \<Rightarrow> error option" where
  "pre_insert_check parent n child w =
     (if kind (nodes w parent) \<noteq> Element then Some HierarchyRequestError
      else (case is_inclusive_ancestor (parent_of w) n parent of
              None \<Rightarrow> Some NoAnswer
            | Some True \<Rightarrow> Some HierarchyRequestError
            | Some False \<Rightarrow>
                (case child of
                   None \<Rightarrow> None
                 | Some c \<Rightarrow> if parentNode (nodes w c) \<noteq> Some parent then Some NotFoundError else None)))"

definition detach :: "nid \<Rightarrow> world \<Rightarrow> world" where
  "detach n w =
     (case parentNode (nodes w n) of
        None \<Rightarrow> w
      | Some p \<Rightarrow>
          upd_node n (\<lambda>x. x\<lparr>parentNode := None\<rparr>)
            (upd_node p (\<lambda>x. x\<lparr>childNodes := removeAll n (childNodes x)\<rparr>) w))"

definition next_sibling_in :: "nid \<Rightarrow> nid list \<Rightarrow> nid option" where
  "next_sibling_in x cs = (case dropWhile (\<lambda>c. c \<noteq> x) cs of _ # y # _ \<Rightarrow> Some y | _ \<Rightarrow> None)"

definition insert_before_in :: "nid \<Rightarrow> nid option \<Rightarrow> nid list \<Rightarrow> nid list" where
  "insert_before_in n r cs =
     (case r of
        None \<Rightarrow> cs @ [n]
      | Some x \<Rightarrow> takeWhile (\<lambda>c. c \<noteq> x) cs @ n # dropWhile (\<lambda>c. c \<noteq> x) cs)"

definition attach :: "nid \<Rightarrow> nid \<Rightarrow> nid option \<Rightarrow> world \<Rightarrow> world" where
  "attach parent n r w =
     upd_node n (\<lambda>x. x\<lparr>parentNode := Some parent\<rparr>)
       (upd_node parent (\<lambda>x. x\<lparr>childNodes := insert_before_in n r (childNodes x)\<rparr>) w)"

definition appendChild :: "nid \<Rightarrow> nid \<Rightarrow> world \<Rightarrow> (error \<times> world) + world" where
  "appendChild parent n w =
     (case pre_insert_check parent n None w of
        Some e \<Rightarrow> Inl (e, w)
      | None \<Rightarrow> Inr (emit (AppendChild parent n) (attach parent n None (detach n w))))"

definition Node_insertBefore :: "nid \<Rightarrow> nid \<Rightarrow> nid option \<Rightarrow> world \<Rightarrow> (error \<times> world) + world" where
  "Node_insertBefore parent n child w =
     (case pre_insert_check parent n child w of
        Some e \<Rightarrow> Inl (e, w)
      | None \<Rightarrow>
          (let r = (if child = Some n then next_sibling_in n (childNodes (nodes w parent)) else child)
           in Inr (emit (InsertBefore parent n child) (attach parent n r (detach n w)))))"

definition removeChild :: "nid \<Rightarrow> nid \<Rightarrow> world \<Rightarrow> (error \<times> world) + world" where
  "removeChild parent child w =
     (if parentNode (nodes w child) \<noteq> Some parent then Inl (NotFoundError, w)
      else Inr (emit (RemoveChild parent child) (detach child w)))"

definition replaceChild :: "nid \<Rightarrow> nid \<Rightarrow> nid \<Rightarrow> world \<Rightarrow> (error \<times> world) + world" where
  "replaceChild parent n child w =
     (case pre_insert_check parent n (Some child) w of
        Some e \<Rightarrow> Inl (e, w)
      | None \<Rightarrow>
          (let cs = childNodes (nodes w parent);
               r0 = next_sibling_in child cs;
               r = (if r0 = Some n then next_sibling_in n cs else r0)
           in Inr (emit (ReplaceChild parent n child) (attach parent n r (detach n (detach child w))))))"

fun eq_children :: "(nid \<Rightarrow> nid \<Rightarrow> bool option) \<Rightarrow> nid list \<Rightarrow> nid list \<Rightarrow> bool option" where
  "eq_children f [] [] = Some True"
| "eq_children f (x # xs) (y # ys) =
     (case f x y of
        None \<Rightarrow> None
      | Some False \<Rightarrow> Some False
      | Some True \<Rightarrow> eq_children f xs ys)"
| "eq_children f _ _ = Some False"

fun isEqualNode :: "nat \<Rightarrow> world \<Rightarrow> nid \<Rightarrow> nid \<Rightarrow> bool option" where
  "isEqualNode 0 w a b = None"
| "isEqualNode (Suc k) w a b =
     (let x = nodes w a; y = nodes w b in
      if kind x = kind y \<and> tagName x = tagName y \<and> nodeValue x = nodeValue y
         \<and> length (attributes x) = length (attributes y)
         \<and> list_all (\<lambda>kv. kv \<in> set (attributes y)) (attributes x)
      then eq_children (isEqualNode k w) (childNodes x) (childNodes y)
      else Some False)"

subsection \<open>Lifecycle signals\<close>

text \<open>
  \<^verbatim>\<open>
  _willUnmount: function(directly_removed){
      if( this["willUnmount"] ) this["willUnmount"]( this, directly_removed );
  },
  _didUnmount: function(directly_removed){
      this._mounted = false;
      if( this["didUnmount"] ) this["didUnmount"]( this, directly_removed );
  },
  _didMount: function(){
      var already_mounted = this._mounted == true;
      this._mounted = true;
      if( this["didMount"] && !already_mounted ) this["didMount"](this);
  },
  _didUpdate: function(){
      this._watch_state_changed_keys = {};
      this._watch_state_change_count = 0;
      if( this["didUpdate"] ) this["didUpdate"]( this );
  },
  \<close>
  A name of the script that starts with an underscore is written with the prefix
  \<open>priv_\<close>. The argument \<^verbatim>\<open>directly_removed\<close> is \<open>Some True\<close> from \<^verbatim>\<open>remove()\<close> and
  undefined (\<open>None\<close>) from the reconciler.
\<close>

definition priv_willUnmount :: "cid \<Rightarrow> bool option \<Rightarrow> world \<Rightarrow> world" where
  "priv_willUnmount this directly_removed w =
     (if willUnmount (comps w this) \<noteq> None then emit (Hook WillUnmount this directly_removed) w else w)"

definition priv_didUnmount :: "cid \<Rightarrow> bool option \<Rightarrow> world \<Rightarrow> world" where
  "priv_didUnmount this directly_removed w =
     (let w1 = upd_comp this (\<lambda>c. c\<lparr>mounted := False\<rparr>) w in
      if didUnmount (comps w1 this) \<noteq> None then emit (Hook DidUnmount this directly_removed) w1 else w1)"

definition priv_didMount :: "cid \<Rightarrow> world \<Rightarrow> world" where
  "priv_didMount this w =
     (let already_mounted = mounted (comps w this);
          w1 = upd_comp this (\<lambda>c. c\<lparr>mounted := True\<rparr>) w in
      if didMount (comps w1 this) \<noteq> None \<and> \<not> already_mounted then emit (Hook DidMount this None) w1 else w1)"

definition priv_didUpdate :: "cid \<Rightarrow> world \<Rightarrow> world" where
  "priv_didUpdate this w =
     (let w1 = upd_comp this (\<lambda>c. c\<lparr>changed_keys := next_ref w, change_count := 0\<rparr>)
                 (w\<lparr>objs := (objs w)(next_ref w := Map.empty), next_ref := Suc (next_ref w)\<rparr>) in
      if didUpdate (comps w1 this) \<noteq> None then emit (Hook DidUpdate this None) w1 else w1)"

subsection \<open>_copyProps\<close>

text \<open>
  \<^verbatim>\<open>
  function _copyProps(new_dom_node, old_dom_node, enumerate_children){
      if( Object.getPrototypeOf(old_dom_node).hasOwnProperty("value") ){
          if( old_dom_node.value != new_dom_node.value ) old_dom_node.value = new_dom_node.value;
          if( old_dom_node.checked != new_dom_node.checked ) old_dom_node.checked = new_dom_node.checked;
          if( old_dom_node.indeterminate != new_dom_node.indeterminate )
              old_dom_node.indeterminate = new_dom_node.indeterminate;
      }
      if( old_dom_node.selected != new_dom_node.selected ) old_dom_node.selected = new_dom_node.selected;
      if( old_dom_node["_data"] != new_dom_node["_data"] ) old_dom_node["_data"] = new_dom_node["_data"];
      if( enumerate_children ){
          var new_dom_node_child_nodes = _slice.call(new_dom_node.children);
          var old_dom_node_child_nodes = _slice.call(old_dom_node.children);
          for( var i = 0, len = new_dom_node_child_nodes.length; i < len; i++ ){
              _copyProps(new_dom_node_child_nodes[i], old_dom_node_child_nodes[i]);
          }
      }
  }
  \<close>
  The inner call passes no third argument, so it does not enumerate: the recursion is one
  level deep. \<open>copyProps_own\<close> is the part before \<^verbatim>\<open>if( enumerate_children )\<close>, which is all
  the inner call runs. A missing old child makes \<^verbatim>\<open>Object.getPrototypeOf(undefined)\<close> raise
  a TypeError.
\<close>

definition copy_prop :: "(node \<Rightarrow> 'a) \<Rightarrow> ('a \<Rightarrow> node \<Rightarrow> node) \<Rightarrow> string \<Rightarrow> nid \<Rightarrow> nid \<Rightarrow> world \<Rightarrow> world" where
  "copy_prop get put name new_dom_node old_dom_node w =
     (if get (nodes w old_dom_node) \<noteq> get (nodes w new_dom_node)
      then emit (SetProp old_dom_node name)
             (upd_node old_dom_node (put (get (nodes w new_dom_node))) w)
      else w)"

definition copyProps_own :: "nid \<Rightarrow> nid \<Rightarrow> world \<Rightarrow> world" where
  "copyProps_own new_dom_node old_dom_node w =
     (let w1 = (if proto_has_value (nodes w old_dom_node)
                then copy_prop prop_indeterminate (\<lambda>v x. x\<lparr>prop_indeterminate := v\<rparr>) ''indeterminate'' new_dom_node old_dom_node
                       (copy_prop prop_checked (\<lambda>v x. x\<lparr>prop_checked := v\<rparr>) ''checked'' new_dom_node old_dom_node
                          (copy_prop prop_value (\<lambda>v x. x\<lparr>prop_value := v\<rparr>) ''value'' new_dom_node old_dom_node w))
                else w)
      in copy_prop prop_data (\<lambda>v x. x\<lparr>prop_data := v\<rparr>) ''_data'' new_dom_node old_dom_node
           (copy_prop prop_selected (\<lambda>v x. x\<lparr>prop_selected := v\<rparr>) ''selected'' new_dom_node old_dom_node w1))"

fun copyProps_children :: "nid list \<Rightarrow> nid list \<Rightarrow> world \<Rightarrow> (error \<times> world) + world" where
  "copyProps_children [] olds w = Inr w"
| "copyProps_children (n # ns) [] w = Inl (TypeError, w)"
| "copyProps_children (n # ns) (old # olds) w = copyProps_children ns olds (copyProps_own n old w)"

definition priv_copyProps :: "nid \<Rightarrow> nid \<Rightarrow> bool \<Rightarrow> world \<Rightarrow> (error \<times> world) + world" where
  "priv_copyProps new_dom_node old_dom_node enumerate_children w =
     (let w1 = copyProps_own new_dom_node old_dom_node w in
      if enumerate_children
      then copyProps_children (children w1 new_dom_node) (children w1 old_dom_node) w1
      else Inr w1)"

subsection \<open>watch: the change-observing Proxy\<close>

text \<open>
  \<^verbatim>\<open>
  function watch(what, onSetCallback){
      return new Proxy( what, {
          get: function(obj, key){
              var destination = obj[key];
              if( typeof destination == 'object' && destination != null
                  && !(destination instanceof CalDom) && key[0] != "_" ){
                  return new Proxy( destination, this );
              }
              else{ return destination; }
          },
          set: function(obj, key, value){
              obj[key] = value;
              onSetCallback(key, true);
              return true;
          },
          deleteProperty: function(obj, key){
              delete obj[key]
              onSetCallback(key, false);
              return true;
          }
      })
  }
  \<close>
  A Proxy is a fresh object that holds its target and its handler. The handler object is
  made once by \<^verbatim>\<open>watch\<close> and handed on by the \<^verbatim>\<open>get\<close> trap (\<^verbatim>\<open>this\<close>), so it is named by
  the one thing that tells two handlers apart: the instance whose callback it closes
  over. The callback itself is a parameter \<open>onSetCallback\<close> of the traps that call it.
\<close>

definition typeof_object :: "jsval \<Rightarrow> bool" where
  "typeof_object v = (case v of Null \<Rightarrow> True | Obj _ \<Rightarrow> True | CalDomObj _ \<Rightarrow> True | _ \<Rightarrow> False)"

definition loose_eq_null :: "jsval \<Rightarrow> bool" where
  "loose_eq_null v = (v = Null \<or> v = Undefined)"

definition instanceof_CalDom :: "jsval \<Rightarrow> bool" where
  "instanceof_CalDom v = (case v of CalDomObj _ \<Rightarrow> True | _ \<Rightarrow> False)"

definition first_char :: "string \<Rightarrow> char option" where
  "first_char key = (case key of [] \<Rightarrow> None | c # _ \<Rightarrow> Some c)"

definition read_prop :: "oid \<Rightarrow> string \<Rightarrow> world \<Rightarrow> jsval" where
  "read_prop obj key w = (case objs w obj key of None \<Rightarrow> Undefined | Some v \<Rightarrow> v)"

definition write_prop :: "oid \<Rightarrow> string \<Rightarrow> jsval \<Rightarrow> world \<Rightarrow> world" where
  "write_prop obj key v w = w\<lparr>objs := (objs w)(obj := (objs w obj)(key \<mapsto> v))\<rparr>"

definition delete_prop :: "oid \<Rightarrow> string \<Rightarrow> world \<Rightarrow> world" where
  "delete_prop obj key w = w\<lparr>objs := (objs w)(obj := (objs w obj)(key := None))\<rparr>"

definition new_Proxy :: "oid \<Rightarrow> cid \<Rightarrow> world \<Rightarrow> pid \<times> world" where
  "new_Proxy t hnd w =
     (next_ref w,
      w\<lparr>proxies := (proxies w)(next_ref w := \<lparr>target = t, handler = hnd\<rparr>),
        next_ref := Suc (next_ref w)\<rparr>)"

text \<open>What reading a property through a Proxy gives: the stored value, or a wrapper.\<close>

datatype got = Unwrapped jsval | Wrapper pid

definition get_trap :: "cid \<Rightarrow> oid \<Rightarrow> string \<Rightarrow> world \<Rightarrow> got \<times> world" where
  "get_trap this obj key w =
     (let destination = read_prop obj key w in
      if typeof_object destination \<and> \<not> loose_eq_null destination
         \<and> \<not> instanceof_CalDom destination \<and> first_char key \<noteq> Some CHR ''_''
      then (case destination of
              Obj d \<Rightarrow> (let (p, w') = new_Proxy d this w in (Wrapper p, w'))
            | _ \<Rightarrow> (Unwrapped destination, w))
      else (Unwrapped destination, w))"

type_synonym callback = "cid \<Rightarrow> string \<Rightarrow> bool \<Rightarrow> world \<Rightarrow> (error \<times> world) + world"

definition set_trap :: "callback \<Rightarrow> cid \<Rightarrow> oid \<Rightarrow> string \<Rightarrow> jsval \<Rightarrow> world \<Rightarrow> (error \<times> world) + world" where
  "set_trap onSetCallback this obj key v w =
     (let w1 = write_prop obj key v w in
      onSetCallback this key True w1)"

definition deleteProperty_trap :: "callback \<Rightarrow> cid \<Rightarrow> oid \<Rightarrow> string \<Rightarrow> world \<Rightarrow> (error \<times> world) + world" where
  "deleteProperty_trap onSetCallback this obj key w =
     (let w1 = delete_prop obj key w in
      onSetCallback this key False w1)"

text \<open>\<^verbatim>\<open>new Proxy(what, handler)\<close> raises a TypeError when \<^verbatim>\<open>what\<close> is no object.\<close>

definition watch :: "jsval \<Rightarrow> cid \<Rightarrow> world \<Rightarrow> (error \<times> world) + (pid \<times> world)" where
  "watch what hnd w =
     (case what of
        Obj t \<Rightarrow> Inr (new_Proxy t hnd w)
      | CalDomObj t \<Rightarrow> Inr (new_Proxy t hnd w)
      | _ \<Rightarrow> Inl (TypeError, w))"

text \<open>The three operations of the script on a Proxy \<open>p\<close> that \<^verbatim>\<open>watch\<close> or the \<^verbatim>\<open>get\<close>
  trap made: \<^verbatim>\<open>p[key]\<close>, \<^verbatim>\<open>p[key] = v\<close> and \<^verbatim>\<open>delete p[key]\<close>.\<close>

definition proxy_get :: "pid \<Rightarrow> string \<Rightarrow> world \<Rightarrow> got \<times> world" where
  "proxy_get p key w = get_trap (handler (proxies w p)) (target (proxies w p)) key w"

definition proxy_set :: "callback \<Rightarrow> pid \<Rightarrow> string \<Rightarrow> jsval \<Rightarrow> world \<Rightarrow> (error \<times> world) + world" where
  "proxy_set onSetCallback p key v w =
     set_trap onSetCallback (handler (proxies w p)) (target (proxies w p)) key v w"

definition proxy_delete :: "callback \<Rightarrow> pid \<Rightarrow> string \<Rightarrow> world \<Rightarrow> (error \<times> world) + world" where
  "proxy_delete onSetCallback p key w =
     deleteProperty_trap onSetCallback (handler (proxies w p)) (target (proxies w p)) key w"

text \<open>An example callback: it notes, in the property \<^verbatim>\<open>seen\<close> of object 9, what the
  changed key of object 1 holds at the moment the callback runs.\<close>

definition snapshot_callback :: callback where
  "snapshot_callback this key avail w = Inr (write_prop 9 ''seen'' (read_prop 1 key w) w)"

text \<open>An example state: object 1 is \<^verbatim>\<open>{ a: 1, user: <object 2>, _cache: <object 3> }\<close>.\<close>

definition world_state :: world where
  "world_state = world0\<lparr>objs := (\<lambda>_. Map.empty)(1 := [''a'' \<mapsto> Num 1, ''user'' \<mapsto> Obj 2,
     ''_cache'' \<mapsto> Obj 3]), next_ref := 10\<rparr>"

subsection \<open>_replace: the reconciler\<close>

text \<open>
  \<^verbatim>\<open>
  function _replace(new_dom_node, old_dom_node, old_dom_node_parent){
      if( !new_dom_node ) return;
      if( new_dom_node._original_root ) new_dom_node = new_dom_node._original_root;
      if( !old_dom_node ){
          return old_dom_node_parent.appendChild( new_dom_node );
      }
      var new_dom_node_is_a_element = new_dom_node.nodeType == 1;
      var soft_replacable = new_dom_node_is_a_element
          && new_dom_node.tagName == old_dom_node.tagName
          && new_dom_node["_h"] === old_dom_node["_h"]
          && new_dom_node.getAttribute("caldom-v") === old_dom_node.getAttribute("caldom-v");
      if( soft_replacable ){
          var copy_props_recursively = true;
          if( !new_dom_node.isEqualNode(old_dom_node) ){
              var new_dom_has_child_nodes = new_dom_node.hasChildNodes();
              if( new_dom_has_child_nodes || old_dom_node.hasChildNodes() ){
                  var old_dom_node_child_nodes = (old_dom_node.childNodes);
                  var i = 0;
                  if( new_dom_has_child_nodes ){
                      copy_props_recursively = false;
                      var new_dom_node_child_nodes = _slice.call(new_dom_node.childNodes);
                      var len = new_dom_node_child_nodes.length;
                      for( ; i < len; i++ ){
                          var replaced_elem = _replace(new_dom_node_child_nodes[i],
                                                       old_dom_node_child_nodes[i], old_dom_node);
                          if( replaced_elem && replaced_elem["_h"] ){
                              replaced_elem["_h"].elems[0] = replaced_elem;
                          }
                      }
                  }
                  for( ; i < old_dom_node_child_nodes.length; i++ ){
                      var old_dom_node_child = old_dom_node_child_nodes[i];
                      var fire_unmount_events = old_dom_node_child["_h"] != undefined;
                      if( fire_unmount_events ) old_dom_node_child["_h"]._willUnmount();
                      old_dom_node.removeChild( old_dom_node_child );
                      i--;
                      if( fire_unmount_events ) old_dom_node_child["_h"]._didUnmount();
                  }
              }
              if( !new_dom_node.isEqualNode(old_dom_node) ){
                  for(var new_attr_i = 0, new_attr_len = new_dom_node.attributes.length;
                      new_attr_i < new_attr_len; new_attr_i++ ){
                      var new_attr = new_dom_node.attributes[new_attr_i];
                      if( old_dom_node.getAttribute(new_attr.name) != new_attr.value ){
                          old_dom_node.setAttribute( new_attr.name, new_attr.value );
                      }
                  }
                  for(var old_attr_i = 0; old_attr_i < old_dom_node.attributes.length; old_attr_i++ ){
                      var old_attr = old_dom_node.attributes[old_attr_i];
                      if( !new_dom_node.hasAttribute(old_attr.name) ){
                          old_dom_node.removeAttribute(old_attr.name);
                          old_attr_i--;
                      }
                  }
              }
          }
          _copyProps( new_dom_node, old_dom_node, copy_props_recursively );
      }
      else if( !new_dom_node.isEqualNode(old_dom_node) ){
          if( !new_dom_node_is_a_element ){
              old_dom_node.nodeValue = new_dom_node.nodeValue;
          }
          else{
              var fire_unmount_events = old_dom_node["_h"] != undefined;
              if( fire_unmount_events ) old_dom_node["_h"]._willUnmount();
              old_dom_node.parentNode.replaceChild( new_dom_node, old_dom_node );
              if( fire_unmount_events ) old_dom_node["_h"]._didUnmount();
              return new_dom_node;
          }
      }
  }
  \<close>
  The two loops over the live lists \<^verbatim>\<open>old_dom_node.childNodes\<close> and
  \<^verbatim>\<open>old_dom_node.attributes\<close> are the index loops \<open>remove_trailing\<close> and
  \<open>remove_stale_attributes\<close>: the decrement of the index after a removal and the increment
  of the loop leave the index where it was. The loop over the copied list of the new
  children is \<open>walk_children\<close>; it reads the live child at the same index in the current
  world. The body of the soft branch is \<open>soft_replace\<close>, the hard replacement is
  \<open>hard_replace\<close>. The recursion of \<^verbatim>\<open>_replace\<close> follows the children of a store, so it is
  bounded by fuel; \<^verbatim>\<open>isEqualNode\<close> gets the same fuel.
\<close>

lemma nodes_priv_willUnmount [simp]: "nodes (priv_willUnmount c d w) = nodes w"
  by (simp add: priv_willUnmount_def emit_def)

lemma nodes_priv_didUnmount [simp]: "nodes (priv_didUnmount c d w) = nodes w"
  by (simp add: priv_didUnmount_def emit_def upd_comp_def Let_def)

lemma childNodes_detach:
  "parentNode (nodes w c) = Some p \<Longrightarrow>
   childNodes (nodes (detach c w) p) = removeAll c (childNodes (nodes w p))"
  by (simp add: detach_def upd_node_def)

lemma removeChild_shrinks:
  assumes "removeChild p c w = Inr w'" and "c \<in> set (childNodes (nodes w p))"
  shows "length (childNodes (nodes w' p)) < length (childNodes (nodes w p))"
proof -
  from assms(1) have par: "parentNode (nodes w c) = Some p" and w': "w' = emit (RemoveChild p c) (detach c w)"
    by (auto simp: removeChild_def split: if_splits)
  have "childNodes (nodes w' p) = removeAll c (childNodes (nodes w p))"
    using childNodes_detach [OF par] by (simp add: w' emit_def)
  with assms(2) show ?thesis by (simp add: length_removeAll_less)
qed

function remove_trailing :: "nat \<Rightarrow> nid \<Rightarrow> world \<Rightarrow> (error \<times> world) + world" where
  "remove_trailing i old_dom_node w =
     (if i < length (childNodes (nodes w old_dom_node)) then
        (let old_dom_node_child = childNodes (nodes w old_dom_node) ! i;
             w1 = (case node_h (nodes w old_dom_node_child) of
                     Some c \<Rightarrow> priv_willUnmount c None w
                   | None \<Rightarrow> w)
         in case removeChild old_dom_node old_dom_node_child w1 of
              Inl e \<Rightarrow> Inl e
            | Inr w2 \<Rightarrow>
                remove_trailing i old_dom_node
                  (case node_h (nodes w old_dom_node_child) of
                     Some c \<Rightarrow> priv_didUnmount c None w2
                   | None \<Rightarrow> w2))
      else Inr w)"
  by pat_completeness auto
termination
proof (relation "measure (\<lambda>(i, old, w). length (childNodes (nodes w old)))", goal_cases)
  case 1
  then show ?case by simp
next
  case (2 i old w c w1 w2)
  then show ?case
    using removeChild_shrinks [of old c w1 w2]
    by (auto split: option.splits)
qed

declare remove_trailing.simps [simp del]

lemma length_delete_less:
  "k \<in> fst ` set xs \<Longrightarrow> length (AList.delete k xs) < length xs"
proof -
  assume "k \<in> fst ` set xs"
  then obtain v where "(k, v) \<in> set xs" by auto
  then show ?thesis unfolding AList.delete_eq
    by (rule length_filter_less) simp
qed

fun sync_new_attributes :: "(string \<times> string) list \<Rightarrow> nid \<Rightarrow> world \<Rightarrow> world" where
  "sync_new_attributes [] old_dom_node w = w"
| "sync_new_attributes (new_attr # rest) old_dom_node w =
     sync_new_attributes rest old_dom_node
       (if getAttribute w old_dom_node (fst new_attr) \<noteq> Some (snd new_attr)
        then setAttribute old_dom_node (fst new_attr) (snd new_attr) w
        else w)"

function remove_stale_attributes :: "nat \<Rightarrow> nid \<Rightarrow> nid \<Rightarrow> world \<Rightarrow> world" where
  "remove_stale_attributes old_attr_i new_dom_node old_dom_node w =
     (if old_attr_i < length (attributes (nodes w old_dom_node)) then
        (let old_attr = attributes (nodes w old_dom_node) ! old_attr_i in
         if \<not> hasAttribute w new_dom_node (fst old_attr)
         then remove_stale_attributes old_attr_i new_dom_node old_dom_node
                (removeAttribute old_dom_node (fst old_attr) w)
         else remove_stale_attributes (Suc old_attr_i) new_dom_node old_dom_node w)
      else w)"
  by pat_completeness auto
termination
proof (relation "measure (\<lambda>(i, n, old, w). length (attributes (nodes w old)) - i)", goal_cases)
  case 1
  then show ?case by simp
next
  case (2 i n old w a)
  have "fst (attributes (nodes w old) ! i) \<in> fst ` set (attributes (nodes w old))"
    using 2(1) by (metis imageI nth_mem)
  from length_delete_less [OF this] 2(1) 2(2) show ?case
    by (simp add: removeAttribute_def emit_def upd_node_def)
next
  case (3 i n old w a)
  then show ?case by simp
qed

declare remove_stale_attributes.simps [simp del]

definition soft_replacable :: "world \<Rightarrow> nid \<Rightarrow> nid \<Rightarrow> bool" where
  "soft_replacable w new_dom_node old_dom_node =
     (nodeType (kind (nodes w new_dom_node)) = 1
      \<and> tagName (nodes w new_dom_node) = tagName (nodes w old_dom_node)
      \<and> node_h (nodes w new_dom_node) = node_h (nodes w old_dom_node)
      \<and> getAttribute w new_dom_node ''caldom-v'' = getAttribute w old_dom_node ''caldom-v'')"

type_synonym replacer = "nid option \<Rightarrow> nid option \<Rightarrow> nid option \<Rightarrow> world \<Rightarrow> (error \<times> world) + (nid option \<times> world)"

definition set_component_root :: "nid option \<Rightarrow> world \<Rightarrow> world" where
  "set_component_root replaced_elem w =
     (case replaced_elem of
        None \<Rightarrow> w
      | Some r \<Rightarrow>
          (case node_h (nodes w r) of
             None \<Rightarrow> w
           | Some c \<Rightarrow> upd_comp c (\<lambda>x. x\<lparr>elems := (if elems x = [] then [r] else (elems x)[0 := r])\<rparr>) w))"

fun walk_children :: "replacer \<Rightarrow> nid list \<Rightarrow> nat \<Rightarrow> nid \<Rightarrow> world \<Rightarrow> (error \<times> world) + world" where
  "walk_children rep [] i old_dom_node w = Inr w"
| "walk_children rep (new_child # rest) i old_dom_node w =
     (case rep (Some new_child) (nth_opt (childNodes (nodes w old_dom_node)) i) (Some old_dom_node) w of
        Inl e \<Rightarrow> Inl e
      | Inr (replaced_elem, w1) \<Rightarrow>
          walk_children rep rest (Suc i) old_dom_node (set_component_root replaced_elem w1))"

definition sync_attributes :: "nid \<Rightarrow> nid \<Rightarrow> world \<Rightarrow> world" where
  "sync_attributes new_dom_node old_dom_node w =
     remove_stale_attributes 0 new_dom_node old_dom_node
       (sync_new_attributes (attributes (nodes w new_dom_node)) old_dom_node w)"

definition soft_replace :: "replacer \<Rightarrow> nat \<Rightarrow> nid \<Rightarrow> nid \<Rightarrow> world \<Rightarrow> (error \<times> world) + world" where
  "soft_replace rep fuel new_dom_node old_dom_node w =
     (case isEqualNode fuel w new_dom_node old_dom_node of
        None \<Rightarrow> Inl (NoAnswer, w)
      | Some True \<Rightarrow> priv_copyProps new_dom_node old_dom_node True w
      | Some False \<Rightarrow>
          (let new_dom_has_child_nodes = hasChildNodes w new_dom_node in
           bindE
             (if new_dom_has_child_nodes \<or> hasChildNodes w old_dom_node
              then bindE
                     (if new_dom_has_child_nodes
                      then walk_children rep (childNodes (nodes w new_dom_node)) 0 old_dom_node w
                      else Inr w)
                     (remove_trailing
                        (if new_dom_has_child_nodes then length (childNodes (nodes w new_dom_node)) else 0)
                        old_dom_node)
              else Inr w)
             (\<lambda>w2. case isEqualNode fuel w2 new_dom_node old_dom_node of
                     None \<Rightarrow> Inl (NoAnswer, w2)
                   | Some still_equal \<Rightarrow>
                       priv_copyProps new_dom_node old_dom_node (\<not> new_dom_has_child_nodes)
                         (if \<not> still_equal then sync_attributes new_dom_node old_dom_node w2 else w2))))"

definition hard_replace :: "nid \<Rightarrow> nid \<Rightarrow> world \<Rightarrow> (error \<times> world) + (nid option \<times> world)" where
  "hard_replace new_dom_node old_dom_node w =
     (let w1 = (case node_h (nodes w old_dom_node) of
                  Some c \<Rightarrow> priv_willUnmount c None w
                | None \<Rightarrow> w)
      in case parentNode (nodes w1 old_dom_node) of
           None \<Rightarrow> Inl (TypeError, w1)
         | Some parent \<Rightarrow>
             bindE (replaceChild parent new_dom_node old_dom_node w1)
               (\<lambda>w2. Inr (Some new_dom_node,
                           (case node_h (nodes w old_dom_node) of
                              Some c \<Rightarrow> priv_didUnmount c None w2
                            | None \<Rightarrow> w2))))"

fun priv_replace :: "nat \<Rightarrow> replacer" where
  "priv_replace 0 new_dom_node old_dom_node old_dom_node_parent w = Inl (NoAnswer, w)"
| "priv_replace (Suc k) new_dom_node old_dom_node old_dom_node_parent w =
     (case new_dom_node of
        None \<Rightarrow> Inr (None, w)
      | Some new0 \<Rightarrow>
          (let new1 = (case node_original_root (nodes w new0) of Some r \<Rightarrow> r | None \<Rightarrow> new0) in
           case old_dom_node of
             None \<Rightarrow>
               (case old_dom_node_parent of
                  None \<Rightarrow> Inl (TypeError, w)
                | Some parent \<Rightarrow> bindE (appendChild parent new1 w) (\<lambda>w1. Inr (Some new1, w1)))
           | Some old \<Rightarrow>
               if soft_replacable w new1 old
               then bindE (soft_replace (priv_replace k) (Suc k) new1 old w) (\<lambda>w1. Inr (None, w1))
               else (case isEqualNode (Suc k) w new1 old of
                       None \<Rightarrow> Inl (NoAnswer, w)
                     | Some True \<Rightarrow> Inr (None, w)
                     | Some False \<Rightarrow>
                         if nodeType (kind (nodes w new1)) \<noteq> 1
                         then Inr (None, set_nodeValue old (nodeValue (nodes w new1)) w)
                         else hard_replace new1 old w)))"

declare is_inclusive_ancestor.simps [code]

subsection \<open>react: the scheduler and the reactive pass\<close>

text \<open>
  \<^verbatim>\<open>
  "react": function( state, config, _is_watched_updated, _state_changed_key,
                     _state_is_key_available, _mounting, _is_request_animation_frame ){
      var _this = this;
      var is_zero_arguments = arguments.length == 0;
      if( _this["watched"] && is_zero_arguments ) return _this;
      if( _is_watched_updated || (is_zero_arguments && !_is_request_animation_frame) ){
          if( _this["update"] ){
              if( !is_zero_arguments ){
                  _this._watch_state_change_count++;
              }
              _this._watch_state_changed_keys[_state_changed_key] = _state_is_key_available;
          }
          if( _this._z ){
              return;
          }
          _this._z = _requestAnimationFramePolyfill(function(){
              _this.react(undefined, undefined, undefined, undefined, undefined, undefined, true);
          });
          return _this;
      }
      else if( !_mounting ){
          if( config ){
              for( var key in config ){ _this[key] = config[key]; }
          }
          if( !this._w["Proxy"] ) _this["watched"] = false;
          if( state != undefined ){
              if( _this["watched"] != false ){
                  _this.state = watch(state, function(key, is_deleted){
                      _this.react(undefined, undefined, true, key, is_deleted);
                  });
              }
              else{ _this.state = state; }
          }
      }
      _this._z = null;
      var current_first_elem = _this.elems[0];
      var has_first_elem = !!current_first_elem;
      if( !_this._mounted && !_mounting ){
          if( has_first_elem && _isNodeConnected(current_first_elem) ){ _this._mounted = true; }
          else{ return _this; }
      }
      var is_parent_re_react_call = _this._mounted && _mounting;
      if( !is_parent_re_react_call && _this["update"]
          && ( !_this.render || ( has_first_elem && current_first_elem["_h"] )) ){
          var continue_to_render = _this["update"](_this.state, _this,
              _this._watch_state_changed_keys, _this._watch_state_change_count);
          if( !continue_to_render ){
              _this._didUpdate();
              return _this;
          }
      }
      if( is_parent_re_react_call ){
          var cloned_root = current_first_elem.cloneNode(true);
          cloned_root["_h"] = _this;
          cloned_root._original_root = current_first_elem;
          _this._v = [ cloned_root ];
      }
      else{
          var new_dom = _this["render"](_this.state, _this);
          if( !new_dom ) return _this;
          if( new_dom instanceof CalDom ) new_dom = new_dom.elems[0];
          new_dom["_h"] = _this;
          if( !current_first_elem ){ _this.elems = [new_dom]; }
          else {
              var new_root = _replace( new_dom, current_first_elem, current_first_elem );
              if( new_root ){ _this.elems[0] = new_root; }
          }
          _this._didUpdate();
      }
      return _this;
  }
  \<close>
  The arguments of a call are a record: \<open>argc\<close> is \<^verbatim>\<open>arguments.length\<close>, an argument
  that is not passed is undefined. A configuration object is the list of its keys, in
  enumeration order, each with its value; it is typed to the documented keys. The
  functions \<^verbatim>\<open>render\<close> and \<^verbatim>\<open>update\<close> are the user's: what they do and return is a
  parameter \<open>env\<close> of the model. \<^verbatim>\<open>update\<close> returns a value of which only the truthiness
  is read; \<^verbatim>\<open>render\<close> returns a falsy value, a node or a CalDom instance.
\<close>

datatype config_entry =
    Render "fid option"
  | Update "fid option"
  | WatchedFlag "bool option"
  | WillMountHook "fid option"
  | DidMountHook "fid option"
  | WillUnmountHook "fid option"
  | DidUnmountHook "fid option"
  | DidUpdateHook "fid option"

fun assign_config :: "config_entry \<Rightarrow> caldom \<Rightarrow> caldom" where
  "assign_config (Render f) c = c\<lparr>render := f\<rparr>"
| "assign_config (Update f) c = c\<lparr>update := f\<rparr>"
| "assign_config (WatchedFlag b) c = c\<lparr>watched := b\<rparr>"
| "assign_config (WillMountHook f) c = c\<lparr>willMount := f\<rparr>"
| "assign_config (DidMountHook f) c = c\<lparr>didMount := f\<rparr>"
| "assign_config (WillUnmountHook f) c = c\<lparr>willUnmount := f\<rparr>"
| "assign_config (DidUnmountHook f) c = c\<lparr>didUnmount := f\<rparr>"
| "assign_config (DidUpdateHook f) c = c\<lparr>didUpdate := f\<rparr>"

record react_args =
  argc :: nat
  arg_state :: jsval
  arg_config :: "config_entry list option"
  is_watched_updated :: bool
  state_changed_key :: "string option"
  state_is_key_available :: "bool option"
  mounting :: bool
  is_request_animation_frame :: bool

definition no_args :: react_args where
  "no_args = \<lparr>argc = 0, arg_state = Undefined, arg_config = None, is_watched_updated = False,
     state_changed_key = None, state_is_key_available = None, mounting = False,
     is_request_animation_frame = False\<rparr>"

text \<open>The four call shapes of the library itself: the callback that \<^verbatim>\<open>react\<close> hands to
  \<^verbatim>\<open>watch\<close>, the call of \<^verbatim>\<open>_willMount\<close>, the animation-frame callback, and the user's
  call with a state and a configuration.\<close>

definition watch_args :: "string \<Rightarrow> bool \<Rightarrow> react_args" where
  "watch_args key is_deleted = no_args\<lparr>argc := 5, is_watched_updated := True,
     state_changed_key := Some key, state_is_key_available := Some is_deleted\<rparr>"

definition mount_args :: react_args where
  "mount_args = no_args\<lparr>argc := 6, mounting := True\<rparr>"

definition frame_args :: react_args where
  "frame_args = no_args\<lparr>argc := 7, is_request_animation_frame := True\<rparr>"

definition user_args :: "jsval \<Rightarrow> config_entry list \<Rightarrow> react_args" where
  "user_args s cfg = no_args\<lparr>argc := 2, arg_state := s, arg_config := Some cfg\<rparr>"

datatype rendered = RFalsy | RNode nid | RCalDom cid

record env =
  call_update :: "fid \<Rightarrow> cid \<Rightarrow> oid \<Rightarrow> nat \<Rightarrow> world \<Rightarrow> bool \<times> world"
  call_render :: "fid \<Rightarrow> cid \<Rightarrow> world \<Rightarrow> rendered \<times> world"
  query :: "string \<Rightarrow> world \<Rightarrow> nid list \<times> world"

text \<open>\<^verbatim>\<open>requestAnimationFrame\<close> (or the \<^verbatim>\<open>setTimeout\<close> of the polyfill) queues the callback
  and returns a handle, a positive integer. The callback the script passes is always a
  call of \<^verbatim>\<open>react\<close> in the frame shape, so the queue holds the instance.\<close>

definition requestAnimationFrame :: "cid \<Rightarrow> world \<Rightarrow> nat \<times> world" where
  "requestAnimationFrame this w =
     (let handle = Suc (raf_last w) in
      (handle, emit (RequestAnimationFrame handle this)
                 (w\<lparr>raf_last := handle, raf_queue := raf_queue w @ [(handle, this)]\<rparr>)))"

definition truthy_handle :: "nat option \<Rightarrow> bool" where
  "truthy_handle z = (case z of None \<Rightarrow> False | Some handle \<Rightarrow> handle \<noteq> 0)"

text \<open>A property key is a string: undefined as a key is the string \<^verbatim>\<open>undefined\<close>.\<close>

definition key_string :: "string option \<Rightarrow> string" where
  "key_string k = (case k of None \<Rightarrow> ''undefined'' | Some s \<Rightarrow> s)"

definition bool_value :: "bool option \<Rightarrow> jsval" where
  "bool_value b = (case b of None \<Rightarrow> Undefined | Some x \<Rightarrow> Bool x)"

text \<open>The scheduling branch: the body of the first \<^verbatim>\<open>if\<close> after the guard.\<close>

definition react_schedule :: "cid \<Rightarrow> react_args \<Rightarrow> world \<Rightarrow> world" where
  "react_schedule this a w =
     (let is_zero_arguments = (argc a = 0);
          w1 = (if update (comps w this) \<noteq> None
                then (let w0 = (if \<not> is_zero_arguments
                                then upd_comp this (\<lambda>c. c\<lparr>change_count := Suc (change_count c)\<rparr>) w
                                else w)
                      in write_prop (changed_keys (comps w0 this)) (key_string (state_changed_key a))
                           (bool_value (state_is_key_available a)) w0)
                else w)
      in if truthy_handle (z_handle (comps w1 this)) then w1
         else (let (handle, w2) = requestAnimationFrame this w1
               in upd_comp this (\<lambda>c. c\<lparr>z_handle := Some handle\<rparr>) w2))"

text \<open>The configuration branch: the body of \<^verbatim>\<open>else if( !_mounting )\<close>.\<close>

definition react_configure :: "cid \<Rightarrow> react_args \<Rightarrow> world \<Rightarrow> (error \<times> world) + world" where
  "react_configure this a w =
     (let w1 = (case arg_config a of
                  None \<Rightarrow> w
                | Some config \<Rightarrow> upd_comp this (\<lambda>c. fold assign_config config c) w);
          w2 = (if \<not> has_Proxy w1 then upd_comp this (\<lambda>c. c\<lparr>watched := Some False\<rparr>) w1 else w1)
      in if \<not> loose_eq_null (arg_state a)
         then (if watched (comps w2 this) \<noteq> Some False
               then bindE (watch (arg_state a) this w2)
                      (\<lambda>(p, w3). Inr (upd_comp this (\<lambda>c. c\<lparr>state := Watched p\<rparr>) w3))
               else Inr (upd_comp this (\<lambda>c. c\<lparr>state := Plain (arg_state a)\<rparr>) w2))
         else Inr w2)"

text \<open>\<^verbatim>\<open>cloneNode(true)\<close>: a copy of the subtree in fresh nodes, without a parent and
  without the expandos (\<^verbatim>\<open>_h\<close>, \<^verbatim>\<open>_original_root\<close>, \<^verbatim>\<open>_data\<close>). Attributes are copied; of
  the form state the value and the checkedness are copied, the other two start from
  their defaults.\<close>

fun clone_list :: "(nid \<Rightarrow> world \<Rightarrow> (error \<times> world) + (nid \<times> world)) \<Rightarrow> nid list \<Rightarrow> world \<Rightarrow> (error \<times> world) + (nid list \<times> world)" where
  "clone_list cl [] w = Inr ([], w)"
| "clone_list cl (n # ns) w =
     bindE (cl n w) (\<lambda>(c, w1). bindE (clone_list cl ns w1) (\<lambda>(cs, w2). Inr (c # cs, w2)))"

fun cloneNode :: "nat \<Rightarrow> nid \<Rightarrow> world \<Rightarrow> (error \<times> world) + (nid \<times> world)" where
  "cloneNode 0 n w = Inl (NoAnswer, w)"
| "cloneNode (Suc k) n w =
     bindE (clone_list (cloneNode k) (childNodes (nodes w n)) w)
       (\<lambda>(cs, w1).
          (let c = next_ref w1;
               x = nodes w1 n;
               copy = x\<lparr>childNodes := cs, parentNode := None, node_h := None,
                        node_original_root := None, prop_data := None,
                        prop_indeterminate := map_option (\<lambda>_. False) (prop_indeterminate x),
                        prop_selected := map_option (\<lambda>_. map_of (attributes x) ''selected'' \<noteq> None) (prop_selected x)\<rparr>
           in Inr (c, fold (\<lambda>ch. upd_node ch (\<lambda>y. y\<lparr>parentNode := Some c\<rparr>)) cs
                        (w1\<lparr>nodes := (nodes w1)(c := copy), next_ref := Suc c\<rparr>))))"

text \<open>\<^verbatim>\<open>elems[0] = x\<close> on a JavaScript array: an empty array grows to one element.\<close>

definition set_first :: "nid \<Rightarrow> nid list \<Rightarrow> nid list" where
  "set_first x xs = (if xs = [] then [x] else xs[0 := x])"

text \<open>The pass: everything from \<^verbatim>\<open>_this._z = null\<close> on. \<open>react_render\<close> is the \<^verbatim>\<open>else\<close>
  branch of \<^verbatim>\<open>if( is_parent_re_react_call )\<close>; calling a \<^verbatim>\<open>render\<close> that is undefined is
  a TypeError, and so is setting \<^verbatim>\<open>_h\<close> on the undefined first element of an empty
  CalDom instance that \<^verbatim>\<open>render\<close> returned.\<close>

definition react_render :: "nat \<Rightarrow> env \<Rightarrow> cid \<Rightarrow> nid option \<Rightarrow> world \<Rightarrow> (error \<times> world) + world" where
  "react_render k env this current_first_elem w =
     (case render (comps w this) of
        None \<Rightarrow> Inl (TypeError, w)
      | Some f \<Rightarrow>
          (let (result, w1) = call_render env f this w in
           case (case result of
                   RFalsy \<Rightarrow> None
                 | RNode n \<Rightarrow> Some (Some n)
                 | RCalDom c \<Rightarrow> Some (nth_opt (elems (comps w1 c)) 0)) of
             None \<Rightarrow> Inr w1
           | Some None \<Rightarrow> Inl (TypeError, w1)
           | Some (Some new_dom) \<Rightarrow>
               (let w2 = upd_node new_dom (\<lambda>x. x\<lparr>node_h := Some this\<rparr>) w1 in
                case current_first_elem of
                  None \<Rightarrow> Inr (priv_didUpdate this (upd_comp this (\<lambda>c. c\<lparr>elems := [new_dom]\<rparr>) w2))
                | Some cur \<Rightarrow>
                    bindE (priv_replace k (Some new_dom) (Some cur) (Some cur) w2)
                      (\<lambda>(new_root, w3).
                         Inr (priv_didUpdate this
                                (case new_root of
                                   None \<Rightarrow> w3
                                 | Some r \<Rightarrow> upd_comp this (\<lambda>c. c\<lparr>elems := set_first r (elems c)\<rparr>) w3))))))"

definition react_stage_clone :: "nat \<Rightarrow> cid \<Rightarrow> nid option \<Rightarrow> world \<Rightarrow> (error \<times> world) + world" where
  "react_stage_clone k this current_first_elem w =
     (case current_first_elem of
        None \<Rightarrow> Inl (TypeError, w)
      | Some cur \<Rightarrow>
          bindE (cloneNode k cur w)
            (\<lambda>(cloned_root, w1).
               Inr (upd_comp this (\<lambda>c. c\<lparr>v_staged := Some [cloned_root]\<rparr>)
                      (upd_node cloned_root
                         (\<lambda>x. x\<lparr>node_h := Some this, node_original_root := Some cur\<rparr>) w1))))"

definition react_pass :: "nat \<Rightarrow> env \<Rightarrow> cid \<Rightarrow> react_args \<Rightarrow> world \<Rightarrow> (error \<times> world) + world" where
  "react_pass k env this a w =
     (let w1 = upd_comp this (\<lambda>c. c\<lparr>z_handle := None\<rparr>) w;
          current_first_elem = nth_opt (elems (comps w1 this)) 0;
          has_first_elem = (current_first_elem \<noteq> None)
      in case (if \<not> mounted (comps w1 this) \<and> \<not> mounting a
               then (case current_first_elem of
                       None \<Rightarrow> Inr None
                     | Some cur \<Rightarrow>
                         (case isNodeConnected w1 cur of
                            None \<Rightarrow> Inl (NoAnswer, w1)
                          | Some True \<Rightarrow> Inr (Some (upd_comp this (\<lambda>c. c\<lparr>mounted := True\<rparr>) w1))
                          | Some False \<Rightarrow> Inr None))
               else Inr (Some w1)) of
           Inl e \<Rightarrow> Inl e
         | Inr None \<Rightarrow> Inr w1
         | Inr (Some w2) \<Rightarrow>
             (let is_parent_re_react_call = (mounted (comps w2 this) \<and> mounting a);
                  first_has_h = (case current_first_elem of
                                   None \<Rightarrow> False
                                 | Some cur \<Rightarrow> node_h (nodes w2 cur) \<noteq> None)
              in case (if \<not> is_parent_re_react_call \<and> update (comps w2 this) \<noteq> None
                          \<and> (render (comps w2 this) = None \<or> (has_first_elem \<and> first_has_h))
                       then (case update (comps w2 this) of
                               None \<Rightarrow> (True, w2)
                             | Some f \<Rightarrow>
                                 call_update env f this (changed_keys (comps w2 this))
                                   (change_count (comps w2 this)) w2)
                       else (True, w2)) of
                   (continue_to_render, w3) \<Rightarrow>
                     if \<not> continue_to_render then Inr (priv_didUpdate this w3)
                     else if is_parent_re_react_call then react_stage_clone k this current_first_elem w3
                     else react_render k env this current_first_elem w3))"

definition react :: "nat \<Rightarrow> env \<Rightarrow> cid \<Rightarrow> react_args \<Rightarrow> world \<Rightarrow> (error \<times> world) + world" where
  "react k env this a w =
     (let is_zero_arguments = (argc a = 0) in
      if watched (comps w this) = Some True \<and> is_zero_arguments then Inr w
      else if is_watched_updated a \<or> (is_zero_arguments \<and> \<not> is_request_animation_frame a)
      then Inr (react_schedule this a w)
      else bindE (if \<not> mounting a then react_configure this a w else Inr w)
             (react_pass k env this a))"

text \<open>The callback that \<^verbatim>\<open>react\<close> hands to \<^verbatim>\<open>watch\<close>:
  \<^verbatim>\<open>function(key, is_deleted){ _this.react(undefined, undefined, true, key, is_deleted); }\<close>.
  So a write and a delete on the watched state of an instance are:\<close>

definition state_callback :: "nat \<Rightarrow> env \<Rightarrow> callback" where
  "state_callback k env this key is_deleted w = react k env this (watch_args key is_deleted) w"

text \<open>A mutation of the watched state, as the user's script makes it: \<^verbatim>\<open>state[key] = v\<close>
  or \<^verbatim>\<open>delete state[key]\<close> on the Proxy (or on a wrapper that reading through it gave).\<close>

datatype mutation = SetKey pid string jsval | DeleteKey pid string

fun mutate :: "nat \<Rightarrow> env \<Rightarrow> mutation \<Rightarrow> world \<Rightarrow> (error \<times> world) + world" where
  "mutate k env (SetKey p key v) w = proxy_set (state_callback k env) p key v w"
| "mutate k env (DeleteKey p key) w = proxy_delete (state_callback k env) p key w"

fun mutate_all :: "nat \<Rightarrow> env \<Rightarrow> mutation list \<Rightarrow> world \<Rightarrow> (error \<times> world) + world" where
  "mutate_all k env [] w = Inr w"
| "mutate_all k env (m # ms) w = bindE (mutate k env m w) (mutate_all k env ms)"

subsection \<open>insertBefore: the insertion engine of append and prepend\<close>

text \<open>
  \<^verbatim>\<open>
  _willMount: function(){
      if( this["render"] || this["update"] ){
          if( this["willMount"] && !this._mounted ) this["willMount"](this);
          this.react(undefined, undefined, undefined, undefined, undefined, true);
      }
  },

  function _isArrayLike(obj){
      return Array.isArray(obj)
          || ( obj && typeof obj != "string" && obj.length != undefined && !(obj instanceof Node) )
  }

  function insertBefore(element_or_elements_or_caldom, before_elem_or_caldom, _insertFunc){
      if( before_elem_or_caldom instanceof CalDom ) before_elem_or_caldom = before_elem_or_caldom.elems[0];
      for(var i = 0, len = element_or_elements_or_caldom.length; i < len; i++){
          var this_item = element_or_elements_or_caldom[i];
          if( !this_item ) continue;
          var new_elems;
          var is_caldom = !!this_item.elems;
          if( is_caldom ){
              this_item._willMount()
              new_elems = this_item._v || this_item.elems;
          }
          else{
              if( _isArrayLike(this_item) ){ new_elems = this_item; }
              else{ new_elems = [this_item]; }
          }
          var elem = this.elems[0];
          if( before_elem_or_caldom === undefined ) before_elem_or_caldom = elem.firstChild;
          for( var elem_i = 0, new_elems_length = new_elems.length; elem_i < new_elems_length; elem_i++ ){
              var new_elem = new_elems[elem_i];
              if( !new_elem ) continue;
              if( typeof new_elem != 'object' ){
                  new_elem = this._w.document.createTextNode( new_elem );
              }
              _insertFunc.call( elem, new_elem, before_elem_or_caldom );
          }
          if( is_caldom ){
              this_item._v = null;
              this_item._didMount()
          }
      }
      return this;
  }

  "append": function(elems_or_caldom){
      return insertBefore.call(this, _isArrayLike(elems_or_caldom) ? elems_or_caldom : arguments,
                               null, _insertFunc_appendChild);
  },
  "prepend": function(elems_or_caldom, before_elem_or_caldom){
      return insertBefore.call(this, _isArrayLike(elems_or_caldom) ? elems_or_caldom : [elems_or_caldom],
                               before_elem_or_caldom, _insertFunc_insertBefore);
  },
  \<close>
  An item is one of the values below. The numbers of the model are the integers of 32
  bits, signed: each is a JavaScript number whose string is its decimal digits. An
  array-like value is a JavaScript array or \<^verbatim>\<open>arguments\<close> object (\<open>IArray\<close>, a list that the
  insertion does not change), or one of the two live lists of the DOM: \<open>IChildNodes n\<close>
  is the NodeList \<^verbatim>\<open>n.childNodes\<close> and \<open>IChildren n\<close> the HTMLCollection \<^verbatim>\<open>n.children\<close>, which
  always show the children that the node \<open>n\<close> has at the moment. The reference
  \<^verbatim>\<open>before_elem_or_caldom\<close> is undefined, or a node or null (\<open>BNode\<close>), or a CalDom
  instance.
\<close>

datatype item =
    INull | IUndefined | IBool bool | INum "32 word" | IStr string
  | INode nid | ICalDom cid | IArray "item list" | IChildNodes nid | IChildren nid

datatype before_ref = BUndefined | BNode "nid option"

datatype before_arg = Before before_ref | BeforeCalDom cid

datatype insert_func = InsertFunc_appendChild | InsertFunc_insertBefore

text \<open>\<^verbatim>\<open>!x\<close> is false exactly on the truthy values.\<close>

fun truthy :: "item \<Rightarrow> bool" where
  "truthy INull = False"
| "truthy IUndefined = False"
| "truthy (IBool b) = b"
| "truthy (INum n) = (n \<noteq> 0)"
| "truthy (IStr s) = (s \<noteq> [])"
| "truthy (INode n) = True"
| "truthy (ICalDom c) = True"
| "truthy (IArray xs) = True"
| "truthy (IChildNodes n) = True"
| "truthy (IChildren n) = True"

fun typeof_is_object :: "item \<Rightarrow> bool" where
  "typeof_is_object INull = True"
| "typeof_is_object (INode n) = True"
| "typeof_is_object (ICalDom c) = True"
| "typeof_is_object (IArray xs) = True"
| "typeof_is_object (IChildNodes n) = True"
| "typeof_is_object (IChildren n) = True"
| "typeof_is_object _ = False"


fun isArrayLike :: "item \<Rightarrow> bool" where
  "isArrayLike (IArray xs) = True"
| "isArrayLike (IChildNodes n) = True"
| "isArrayLike (IChildren n) = True"
| "isArrayLike _ = False"

text \<open>\<^verbatim>\<open>list.length\<close> and \<^verbatim>\<open>list[i]\<close>, read in the current world: a live list is as long as
  the node has children now, and an index out of range reads undefined.\<close>

fun array_length :: "world \<Rightarrow> item \<Rightarrow> nat" where
  "array_length w (IArray xs) = length xs"
| "array_length w (IChildNodes n) = length (childNodes (nodes w n))"
| "array_length w (IChildren n) = length (children w n)"
| "array_length w _ = 0"

definition node_entry :: "nid list \<Rightarrow> nat \<Rightarrow> item" where
  "node_entry ns i = (case nth_opt ns i of None \<Rightarrow> IUndefined | Some n \<Rightarrow> INode n)"

fun array_entry :: "world \<Rightarrow> item \<Rightarrow> nat \<Rightarrow> item" where
  "array_entry w (IArray xs) i = (case nth_opt xs i of None \<Rightarrow> IUndefined | Some x \<Rightarrow> x)"
| "array_entry w (IChildNodes n) i = node_entry (childNodes (nodes w n)) i"
| "array_entry w (IChildren n) i = node_entry (children w n) i"
| "array_entry w _ i = IUndefined"

text \<open>The string of a primitive, as \<^verbatim>\<open>createTextNode\<close> converts its argument.\<close>

definition digit_char :: "nat \<Rightarrow> char" where
  "digit_char n = char_of (48 + n)"

function nat_string :: "nat \<Rightarrow> string" where
  "nat_string n =
     (if n < 10 then [digit_char n] else nat_string (n div 10) @ [digit_char (n mod 10)])"
  by pat_completeness auto
termination
  by (relation "measure id") auto

declare nat_string.simps [simp del]

definition ToString :: "item \<Rightarrow> string" where
  "ToString x =
     (case x of
        IStr s \<Rightarrow> s
      | INum n \<Rightarrow> (if sint n < 0 then CHR ''-'' # nat_string (nat (- sint n)) else nat_string (nat (sint n)))
      | IBool b \<Rightarrow> (if b then ''true'' else ''false'')
      | IUndefined \<Rightarrow> ''undefined''
      | _ \<Rightarrow> ''null'')"

definition createTextNode :: "string \<Rightarrow> world \<Rightarrow> nid \<times> world" where
  "createTextNode s w =
     (next_ref w,
      w\<lparr>nodes := (nodes w)(next_ref w := blank_node\<lparr>kind := Text, tagName := None, nodeValue := Some s\<rparr>),
        next_ref := Suc (next_ref w)\<rparr>)"

definition firstChild :: "world \<Rightarrow> nid \<Rightarrow> nid option" where
  "firstChild w n = nth_opt (childNodes (nodes w n)) 0"

definition priv_willMount :: "nat \<Rightarrow> env \<Rightarrow> cid \<Rightarrow> world \<Rightarrow> (error \<times> world) + world" where
  "priv_willMount k env this w =
     (if render (comps w this) \<noteq> None \<or> update (comps w this) \<noteq> None
      then react k env this mount_args
             (if willMount (comps w this) \<noteq> None \<and> \<not> mounted (comps w this)
              then emit (Hook WillMount this None) w else w)
      else Inr w)"

text \<open>\<^verbatim>\<open>_insertFunc.call(elem, new_elem, before_elem_or_caldom)\<close>: a TypeError when \<^verbatim>\<open>elem\<close>
  is undefined or \<^verbatim>\<open>new_elem\<close> is no node.\<close>

definition call_insertFunc :: "insert_func \<Rightarrow> nid option \<Rightarrow> item \<Rightarrow> nid option \<Rightarrow> world \<Rightarrow> (error \<times> world) + world" where
  "call_insertFunc f el new_elem before w =
     (case el of
        None \<Rightarrow> Inl (TypeError, w)
      | Some parent \<Rightarrow>
          (case new_elem of
             INode n \<Rightarrow>
               (case f of
                  InsertFunc_appendChild \<Rightarrow> appendChild parent n w
                | InsertFunc_insertBefore \<Rightarrow> Node_insertBefore parent n before w)
           | _ \<Rightarrow> Inl (TypeError, w)))"

text \<open>\<^verbatim>\<open>new_elem\<close> as it is passed to \<^verbatim>\<open>_insertFunc\<close>: a value that is no object becomes a new
  text node.\<close>

definition as_node :: "item \<Rightarrow> world \<Rightarrow> item \<times> world" where
  "as_node new_elem w =
     (if \<not> typeof_is_object new_elem
      then (let (t, w') = createTextNode (ToString new_elem) w in (INode t, w'))
      else (new_elem, w))"

text \<open>The inner loop, over \<^verbatim>\<open>new_elems\<close>: the length is read once, before the loop, and
  each entry when its turn comes.\<close>

function insert_new_elems :: "insert_func \<Rightarrow> nid option \<Rightarrow> nid option \<Rightarrow> item \<Rightarrow> nat \<Rightarrow> nat \<Rightarrow> world \<Rightarrow> (error \<times> world) + world" where
  "insert_new_elems f el before new_elems new_elems_length elem_i w =
     (if elem_i < new_elems_length then
        (if \<not> truthy (array_entry w new_elems elem_i)
         then insert_new_elems f el before new_elems new_elems_length (Suc elem_i) w
         else (case call_insertFunc f el (fst (as_node (array_entry w new_elems elem_i) w)) before
                      (snd (as_node (array_entry w new_elems elem_i) w)) of
                 Inl e \<Rightarrow> Inl e
               | Inr w2 \<Rightarrow> insert_new_elems f el before new_elems new_elems_length (Suc elem_i) w2))
      else Inr w)"
  by pat_completeness auto
termination
  by (relation "measure (\<lambda>(f, el, before, new_elems, new_elems_length, elem_i, w). new_elems_length - elem_i)")
     auto

declare insert_new_elems.simps [simp del]

text \<open>What one item of the outer loop gives to the inner loop: \<^verbatim>\<open>new_elems\<close>, after
  \<^verbatim>\<open>_willMount\<close> where the item is a CalDom instance.\<close>

definition new_elems_of :: "nat \<Rightarrow> env \<Rightarrow> item \<Rightarrow> world \<Rightarrow> (error \<times> world) + (item \<times> world)" where
  "new_elems_of k env this_item w =
     (case this_item of
        ICalDom c \<Rightarrow>
          bindE (priv_willMount k env c w)
            (\<lambda>w1. Inr (IArray (map INode (case v_staged (comps w1 c) of
                                            Some staged \<Rightarrow> staged
                                          | None \<Rightarrow> elems (comps w1 c))), w1))
      | _ \<Rightarrow> Inr (if isArrayLike this_item then this_item else IArray [this_item], w))"

text \<open>\<^verbatim>\<open>if( before_elem_or_caldom === undefined ) before_elem_or_caldom = elem.firstChild\<close>:
  reading \<^verbatim>\<open>firstChild\<close> of an undefined \<^verbatim>\<open>elem\<close> is a TypeError.\<close>

definition resolve_before :: "before_ref \<Rightarrow> nid option \<Rightarrow> world \<Rightarrow> (error \<times> world) + nid option" where
  "resolve_before before el w =
     (case before of
        BUndefined \<Rightarrow>
          (case el of
             None \<Rightarrow> Inl (TypeError, w)
           | Some e \<Rightarrow> Inr (firstChild w e))
      | BNode r \<Rightarrow> Inr r)"

text \<open>\<^verbatim>\<open>if( is_caldom ){ this_item._v = null; this_item._didMount() }\<close>\<close>

definition after_item :: "item \<Rightarrow> world \<Rightarrow> world" where
  "after_item this_item w =
     (case this_item of
        ICalDom c \<Rightarrow> priv_didMount c (upd_comp c (\<lambda>x. x\<lparr>v_staged := None\<rparr>) w)
      | _ \<Rightarrow> w)"

text \<open>The body of the outer loop for an item that is not skipped: the world after it, and
  the reference, which is resolved at the first such item and kept for the items after
  it.\<close>

definition insert_item :: "nat \<Rightarrow> env \<Rightarrow> cid \<Rightarrow> insert_func \<Rightarrow> before_ref \<Rightarrow> item \<Rightarrow> world \<Rightarrow> (error \<times> world) + (before_ref \<times> world)" where
  "insert_item k env this f before this_item w =
     bindE (new_elems_of k env this_item w)
       (\<lambda>(new_elems, w1).
          (let el = nth_opt (elems (comps w1 this)) 0 in
           bindE (resolve_before before el w1)
             (\<lambda>before'.
                bindE (insert_new_elems f el before' new_elems (array_length w1 new_elems) 0 w1)
                  (\<lambda>w2. Inr (BNode before', after_item this_item w2)))))"

text \<open>The outer loop, over \<^verbatim>\<open>element_or_elements_or_caldom\<close>, with its length read once.\<close>

function insert_items :: "nat \<Rightarrow> env \<Rightarrow> cid \<Rightarrow> insert_func \<Rightarrow> before_ref \<Rightarrow> item \<Rightarrow> nat \<Rightarrow> nat \<Rightarrow> world \<Rightarrow> (error \<times> world) + world" where
  "insert_items k env this f before element_or_elements_or_caldom len i w =
     (if i < len then
        (if \<not> truthy (array_entry w element_or_elements_or_caldom i)
         then insert_items k env this f before element_or_elements_or_caldom len (Suc i) w
         else (case insert_item k env this f before (array_entry w element_or_elements_or_caldom i) w of
                 Inl e \<Rightarrow> Inl e
               | Inr (before', w2) \<Rightarrow>
                   insert_items k env this f before' element_or_elements_or_caldom len (Suc i) w2))
      else Inr w)"
  by pat_completeness auto
termination
  by (relation "measure (\<lambda>(k, env, this, f, before, xs, len, i, w). len - i)") auto

declare insert_items.simps [simp del]

definition insertBefore :: "nat \<Rightarrow> env \<Rightarrow> cid \<Rightarrow> item \<Rightarrow> before_arg \<Rightarrow> insert_func \<Rightarrow> world \<Rightarrow> (error \<times> world) + world" where
  "insertBefore k env this element_or_elements_or_caldom before_elem_or_caldom f w =
     (let before = (case before_elem_or_caldom of
                      BeforeCalDom c \<Rightarrow> (case nth_opt (elems (comps w c)) 0 of
                                          None \<Rightarrow> BUndefined
                                        | Some n \<Rightarrow> BNode (Some n))
                    | Before b \<Rightarrow> b)
      in insert_items k env this f before element_or_elements_or_caldom
           (array_length w element_or_elements_or_caldom) 0 w)"

text \<open>\<^verbatim>\<open>append\<close> and \<^verbatim>\<open>prepend\<close>: a first argument that is array-like is the list, otherwise
  the list is the arguments (\<^verbatim>\<open>append\<close>) or the first argument alone (\<^verbatim>\<open>prepend\<close>). The
  two names are taken by lists, so they carry a prime.\<close>

definition append' :: "nat \<Rightarrow> env \<Rightarrow> cid \<Rightarrow> item list \<Rightarrow> world \<Rightarrow> (error \<times> world) + world" where
  "append' k env this arguments w =
     insertBefore k env this
       (case arguments of
          elems_or_caldom # _ \<Rightarrow> if isArrayLike elems_or_caldom then elems_or_caldom else IArray arguments
        | [] \<Rightarrow> IArray arguments)
       (Before (BNode None)) InsertFunc_appendChild w"

definition prepend' :: "nat \<Rightarrow> env \<Rightarrow> cid \<Rightarrow> item \<Rightarrow> before_arg \<Rightarrow> world \<Rightarrow> (error \<times> world) + world" where
  "prepend' k env this elems_or_caldom before_elem_or_caldom w =
     insertBefore k env this
       (if isArrayLike elems_or_caldom then elems_or_caldom else IArray [elems_or_caldom])
       before_elem_or_caldom InsertFunc_insertBefore w"


subsection \<open>init and the single/multiple accessors\<close>

text \<open>
  \<^verbatim>\<open>
  _setMultipleMode: function(){
      this.each = _eachMultiple;   this.map = _mapMultiple;
      this.find = _findMultiple;   this.prop = _propMultiple;
      this.attr = _attrMultiple;   this.css = _cssMultiple;
      this.addClass = _addClassMultiple;
      this.removeClass = _removeClassMultiple;
  },
  init: function(selector_xpath_caldom_elems, children_array, parentWindow){
      this._w = parentWindow || window;
      if( selector_xpath_caldom_elems ){
          if( _isArrayLike(selector_xpath_caldom_elems) ){
              this.elems = _slice.call( selector_xpath_caldom_elems );
          }
          else if(typeof selector_xpath_caldom_elems == 'object' ){
              this.elems = [selector_xpath_caldom_elems];
          }
          else{
              this.elems = q(selector_xpath_caldom_elems, this._w.document);
          }
          if( this.elems.length != 1 ) this._setMultipleMode();
      }
      if( children_array && _isArrayLike(children_array) )
          insertBefore.call( this, children_array, null, _insertFunc_appendChild );
      return this;
  },
  "remove": function(){
      this._willUnmount(true);
      this.each(function(elem){ elem.parentNode.removeChild(elem); });
      this.elems = [];
      this._setMultipleMode();
      this._didUnmount(true);
      return this;
  },
  function _eachSingle(callback){ callback.call(this.elems[0], this.elems[0], 0); }
  function _eachMultiple(callback){
      for(var i = 0, len = this.elems.length; i < len; i++){
          if( callback.call(this.elems[i], this.elems[i], i) === false ) break;
      }
      return this;
  }
  function _mapSingle(callback){ return [ callback(this.elems[0], 0) ]; }
  function _mapMultiple(callback){
      var output = [];
      for(var i = 0, len = this.elems.length; i < len; i++){
          output.push( callback(this.elems[i], i) );
      }
      return output;
  }
  function _attrSingle(key_or_key_values, val_or_val_array){
      ...
      else if(arguments.length == 2) {
          if( Array.isArray(val_or_val_array) ){
              this.elems[0].setAttribute(key_or_key_values, val_or_val_array[0]);
          }
          else{ this.elems[0].setAttribute(key_or_key_values, val_or_val_array); }
      }
      ...
  }
  function _attrMultiple(key_or_key_values, val_or_val_array){
      ...
      else if(arguments.length == 2) {
          if( Array.isArray(val_or_val_array) ){
              this.each(function(elem, i){ elem.setAttribute(key_or_key_values, val_or_val_array[i]); });
          }
          else{
              this.each(function(elem){ elem.setAttribute(key_or_key_values, val_or_val_array); });
          }
      }
      ...
  }
  \<close>
  The first argument of the constructor is falsy (absent, null, the empty string), an
  array-like of nodes, an object (a node), or a query string that the resolver \<^verbatim>\<open>q\<close>
  answers (\<open>query env\<close>). The eight accessors are switched together, so one flag
  \<open>multiple\<close> says which versions the instance has; the model has \<^verbatim>\<open>each\<close>, \<^verbatim>\<open>map\<close> and the
  two-argument form of \<^verbatim>\<open>attr\<close> with a string key. A callback of \<^verbatim>\<open>each\<close> and \<^verbatim>\<open>map\<close> is a
  parameter; that of \<^verbatim>\<open>each\<close> answers whether it returned \<^verbatim>\<open>false\<close>.
\<close>

datatype selector = SFalsy | SArrayLike "nid list" | SObject nid | SQuery string

definition priv_setMultipleMode :: "cid \<Rightarrow> world \<Rightarrow> world" where
  "priv_setMultipleMode this w = upd_comp this (\<lambda>c. c\<lparr>multiple := True\<rparr>) w"

definition init :: "nat \<Rightarrow> env \<Rightarrow> cid \<Rightarrow> selector \<Rightarrow> item option \<Rightarrow> world \<Rightarrow> (error \<times> world) + world" where
  "init k env this selector_xpath_caldom_elems children_array w =
     (let w2 = (if selector_xpath_caldom_elems \<noteq> SFalsy
                then (let w1 = (case selector_xpath_caldom_elems of
                                  SArrayLike ns \<Rightarrow> upd_comp this (\<lambda>c. c\<lparr>elems := ns\<rparr>) w
                                | SObject n \<Rightarrow> upd_comp this (\<lambda>c. c\<lparr>elems := [n]\<rparr>) w
                                | SQuery s \<Rightarrow> (let (ns, w') = query env s w
                                               in upd_comp this (\<lambda>c. c\<lparr>elems := ns\<rparr>) w')
                                | SFalsy \<Rightarrow> w)
                      in if length (elems (comps w1 this)) \<noteq> 1 then priv_setMultipleMode this w1 else w1)
                else w)
      in case children_array of
           Some array \<Rightarrow>
             if truthy array \<and> isArrayLike array
             then insertBefore k env this array (Before (BNode None)) InsertFunc_appendChild w2
             else Inr w2
         | None \<Rightarrow> Inr w2)"

text \<open>\<^verbatim>\<open>new CalDom(query_or_elems, children_array)\<close>: a fresh instance, whose fields read
  the prototype's, then \<^verbatim>\<open>init\<close>.\<close>

definition new_CalDom :: "nat \<Rightarrow> env \<Rightarrow> selector \<Rightarrow> item option \<Rightarrow> world \<Rightarrow> (error \<times> world) + (cid \<times> world)" where
  "new_CalDom k env query_or_elems children_array w =
     (let this = next_ref w in
      bindE (init k env this query_or_elems children_array
               (w\<lparr>comps := (comps w)(this := prototype), next_ref := Suc this\<rparr>))
        (\<lambda>w1. Inr (this, w1)))"

type_synonym each_callback = "nid option \<Rightarrow> nat \<Rightarrow> world \<Rightarrow> (error \<times> world) + (bool \<times> world)"

definition eachSingle :: "each_callback \<Rightarrow> cid \<Rightarrow> world \<Rightarrow> (error \<times> world) + world" where
  "eachSingle callback this w =
     bindE (callback (nth_opt (elems (comps w this)) 0) 0 w) (\<lambda>(returned_false, w1). Inr w1)"

fun each_loop :: "each_callback \<Rightarrow> nid list \<Rightarrow> nat \<Rightarrow> world \<Rightarrow> (error \<times> world) + world" where
  "each_loop callback [] i w = Inr w"
| "each_loop callback (e # es) i w =
     bindE (callback (Some e) i w)
       (\<lambda>(returned_false, w1). if returned_false then Inr w1 else each_loop callback es (Suc i) w1)"

definition eachMultiple :: "each_callback \<Rightarrow> cid \<Rightarrow> world \<Rightarrow> (error \<times> world) + world" where
  "eachMultiple callback this w = each_loop callback (elems (comps w this)) 0 w"

definition each :: "each_callback \<Rightarrow> cid \<Rightarrow> world \<Rightarrow> (error \<times> world) + world" where
  "each callback this w =
     (if multiple (comps w this) then eachMultiple callback this w else eachSingle callback this w)"

type_synonym 'r map_callback = "nid option \<Rightarrow> nat \<Rightarrow> world \<Rightarrow> (error \<times> world) + ('r \<times> world)"

definition mapSingle :: "'r map_callback \<Rightarrow> cid \<Rightarrow> world \<Rightarrow> (error \<times> world) + ('r list \<times> world)" where
  "mapSingle callback this w =
     bindE (callback (nth_opt (elems (comps w this)) 0) 0 w) (\<lambda>(r, w1). Inr ([r], w1))"

fun map_loop :: "'r map_callback \<Rightarrow> nid list \<Rightarrow> nat \<Rightarrow> world \<Rightarrow> (error \<times> world) + ('r list \<times> world)" where
  "map_loop callback [] i w = Inr ([], w)"
| "map_loop callback (e # es) i w =
     bindE (callback (Some e) i w)
       (\<lambda>(r, w1). bindE (map_loop callback es (Suc i) w1) (\<lambda>(rs, w2). Inr (r # rs, w2)))"

definition mapMultiple :: "'r map_callback \<Rightarrow> cid \<Rightarrow> world \<Rightarrow> (error \<times> world) + ('r list \<times> world)" where
  "mapMultiple callback this w = map_loop callback (elems (comps w this)) 0 w"

definition map' :: "'r map_callback \<Rightarrow> cid \<Rightarrow> world \<Rightarrow> (error \<times> world) + ('r list \<times> world)" where
  "map' callback this w =
     (if multiple (comps w this) then mapMultiple callback this w else mapSingle callback this w)"

text \<open>The value argument of \<^verbatim>\<open>attr\<close>: one string, or an array of strings of which the
  element at index \<open>i\<close> is taken (undefined, the string \<^verbatim>\<open>undefined\<close> as an attribute value,
  where the array is too short). \<^verbatim>\<open>setAttribute\<close> is a method of elements only.\<close>

datatype val_or_val_array = Val string | ValArray "string list"

definition val_at :: "val_or_val_array \<Rightarrow> nat \<Rightarrow> string" where
  "val_at v i = (case v of Val s \<Rightarrow> s | ValArray vs \<Rightarrow> (case nth_opt vs i of None \<Rightarrow> ''undefined'' | Some s \<Rightarrow> s))"

definition elem_setAttribute :: "nid option \<Rightarrow> string \<Rightarrow> string \<Rightarrow> world \<Rightarrow> (error \<times> world) + world" where
  "elem_setAttribute elem name v w =
     (case elem of
        None \<Rightarrow> Inl (TypeError, w)
      | Some e \<Rightarrow> if kind (nodes w e) = Element then Inr (setAttribute e name v w) else Inl (TypeError, w))"

definition attrSingle :: "string \<Rightarrow> val_or_val_array \<Rightarrow> cid \<Rightarrow> world \<Rightarrow> (error \<times> world) + world" where
  "attrSingle key val_or_val_array this w =
     elem_setAttribute (nth_opt (elems (comps w this)) 0) key (val_at val_or_val_array 0) w"

definition attrMultiple :: "string \<Rightarrow> val_or_val_array \<Rightarrow> cid \<Rightarrow> world \<Rightarrow> (error \<times> world) + world" where
  "attrMultiple key val_or_val_array this w =
     each (\<lambda>elem i w'. bindE (elem_setAttribute elem key (val_at val_or_val_array i) w')
                          (\<lambda>w''. Inr (False, w''))) this w"

definition attr :: "string \<Rightarrow> val_or_val_array \<Rightarrow> cid \<Rightarrow> world \<Rightarrow> (error \<times> world) + world" where
  "attr key val_or_val_array this w =
     (if multiple (comps w this) then attrMultiple key val_or_val_array this w
      else attrSingle key val_or_val_array this w)"

definition remove' :: "cid \<Rightarrow> world \<Rightarrow> (error \<times> world) + world" where
  "remove' this w =
     bindE (each (\<lambda>elem i w'.
                    case elem of
                      None \<Rightarrow> Inl (TypeError, w')
                    | Some e \<Rightarrow>
                        (case parentNode (nodes w' e) of
                           None \<Rightarrow> Inl (TypeError, w')
                         | Some p \<Rightarrow> bindE (removeChild p e w') (\<lambda>w''. Inr (False, w''))))
              this (priv_willUnmount this (Some True) w))
       (\<lambda>w1. Inr (priv_didUnmount this (Some True)
                    (priv_setMultipleMode this (upd_comp this (\<lambda>c. c\<lparr>elems := []\<rparr>) w1))))"

subsection \<open>What the claims about the scheduler speak of\<close>

text \<open>The proxy, the key and the availability flag of a mutation, the object it writes
  to, and the ledger that a list of mutations leaves: every key touched, each with the
  flag of its last touch.\<close>

fun mutation_proxy :: "mutation \<Rightarrow> pid" where
  "mutation_proxy (SetKey p key v) = p"
| "mutation_proxy (DeleteKey p key) = p"

fun mutation_key :: "mutation \<Rightarrow> string" where
  "mutation_key (SetKey p key v) = key"
| "mutation_key (DeleteKey p key) = key"

fun mutation_available :: "mutation \<Rightarrow> bool" where
  "mutation_available (SetKey p key v) = True"
| "mutation_available (DeleteKey p key) = False"

fun store_mutation :: "mutation \<Rightarrow> world \<Rightarrow> world" where
  "store_mutation (SetKey p key v) w = write_prop (target (proxies w p)) key v w"
| "store_mutation (DeleteKey p key) w = delete_prop (target (proxies w p)) key w"

definition ledger_after :: "mutation list \<Rightarrow> (string \<rightharpoonup> jsval) \<Rightarrow> (string \<rightharpoonup> jsval)" where
  "ledger_after ms ledger = fold (\<lambda>m l. l(mutation_key m \<mapsto> Bool (mutation_available m))) ms ledger"

text \<open>Example environments: an \<^verbatim>\<open>update\<close> that does nothing and returns a fixed answer,
  a \<^verbatim>\<open>render\<close> that declines, a resolver that finds nothing.\<close>

definition env_update_returns :: "bool \<Rightarrow> env" where
  "env_update_returns b = \<lparr>call_update = (\<lambda>f this ledger n w. (b, w)),
     call_render = (\<lambda>f this w. (RFalsy, w)), query = (\<lambda>s w. ([], w))\<rparr>"

text \<open>Example components. Instance 5 has a \<^verbatim>\<open>render\<close> and \<^verbatim>\<open>watched: true\<close>; instance 6
  has an \<^verbatim>\<open>update\<close> only, is mounted on the connected node 1, and its state object 1 is
  watched through Proxy 3; instance 7 is like 6 with a \<^verbatim>\<open>render\<close> and no \<^verbatim>\<open>update\<close>, its
  state is object 2 behind Proxy 4. Object 8 is the ledger of instance 6.\<close>

definition world_components :: world where
  "world_components = world0\<lparr>
     nodes := (\<lambda>_. blank_node)(1 := blank_node\<lparr>parentNode := Some 0, node_h := Some 6\<rparr>,
                                 2 := blank_node\<lparr>parentNode := Some 0, node_h := Some 7\<rparr>,
                                 0 := blank_node\<lparr>tagName := Some ''BODY'', childNodes := [1, 2]\<rparr>),
     comps := (\<lambda>_. prototype)
       (5 := prototype\<lparr>watched := Some True, render := Some 1\<rparr>,
        6 := prototype\<lparr>elems := [1], update := Some 2, mounted := True, state := Watched 3,
                        changed_keys := 8\<rparr>,
        7 := prototype\<lparr>elems := [2], render := Some 1, mounted := True, state := Watched 4\<rparr>),
     objs := (\<lambda>_. Map.empty)(1 := [''a'' \<mapsto> Num 1, ''b'' \<mapsto> Num 2], 2 := [''a'' \<mapsto> Num 1]),
     proxies := (\<lambda>_. \<lparr>target = 0, handler = 0\<rparr>)
       (3 := \<lparr>target = 1, handler = 6\<rparr>, 4 := \<lparr>target = 2, handler = 7\<rparr>),
     next_ref := 10\<rparr>"

subsection \<open>Example trees\<close>

text \<open>An element with a tag name, attributes, children and a parent.\<close>

definition elem :: "string \<Rightarrow> (string \<times> string) list \<Rightarrow> nid list \<Rightarrow> nid option \<Rightarrow> node" where
  "elem tag attrs cs p = blank_node\<lparr>tagName := Some tag, attributes := attrs, childNodes := cs, parentNode := p\<rparr>"


subsection \<open>What the claims about the reconciler speak of\<close>

text \<open>The five properties of \<^verbatim>\<open>_copyProps\<close> agree on a candidate and a live node when no
  assignment of \<^verbatim>\<open>_copyProps\<close> runs for the pair.\<close>

definition props_agree :: "world \<Rightarrow> nid \<Rightarrow> nid \<Rightarrow> bool" where
  "props_agree w new_dom_node old_dom_node =
     ((proto_has_value (nodes w old_dom_node) \<longrightarrow>
         prop_value (nodes w old_dom_node) = prop_value (nodes w new_dom_node)
       \<and> prop_checked (nodes w old_dom_node) = prop_checked (nodes w new_dom_node)
       \<and> prop_indeterminate (nodes w old_dom_node) = prop_indeterminate (nodes w new_dom_node))
      \<and> prop_selected (nodes w old_dom_node) = prop_selected (nodes w new_dom_node)
      \<and> prop_data (nodes w old_dom_node) = prop_data (nodes w new_dom_node))"

text \<open>Everything of a node but the five properties.\<close>

definition tree_part :: "node \<Rightarrow> node" where
  "tree_part x = x\<lparr>prop_value := None, prop_checked := None, prop_indeterminate := None,
     prop_selected := None, prop_data := None\<rparr>"

text \<open>\<open>props_copied_only S w w'\<close>: the world \<open>w'\<close> differs from \<open>w\<close> at most in the five
  properties of the nodes in \<open>S\<close>, and every event between them is a property
  assignment on a node in \<open>S\<close>.\<close>

definition props_copied_only :: "nid set \<Rightarrow> world \<Rightarrow> world \<Rightarrow> bool" where
  "props_copied_only S w w' =
     ((\<forall>x. tree_part (nodes w' x) = tree_part (nodes w x))
      \<and> (\<forall>x. x \<notin> S \<longrightarrow> nodes w' x = nodes w x)
      \<and> w'\<lparr>nodes := nodes w, trace := trace w\<rparr> = w
      \<and> (\<exists>evs. trace w' = trace w @ evs \<and> (\<forall>e\<in>set evs. \<exists>n name. e = SetProp n name \<and> n \<in> S)))"

text \<open>The live tree is \<^verbatim>\<open><body><input></body>\<close> (nodes 20 and 21); the user has typed into
  the input, so its \<^verbatim>\<open>value\<close> property is \<^verbatim>\<open>typed\<close> while it has no attribute. The candidate
  is a detached \<^verbatim>\<open><input>\<close> (node 31) as \<^verbatim>\<open>render\<close> makes it: no attribute, empty value.\<close>

definition input_node :: "string \<Rightarrow> nid option \<Rightarrow> node" where
  "input_node v p = (elem ''INPUT'' [] [] p)\<lparr>proto_has_value := True, prop_value := Some v,
     prop_checked := Some False, prop_indeterminate := Some False\<rparr>"

definition world_input :: world where
  "world_input = world0\<lparr>
     nodes := (\<lambda>_. blank_node)
       (20 := elem ''BODY'' [] [21] None,
        21 := input_node ''typed'' (Some 20),
        31 := input_node [] None),
     document_root := 20, next_ref := 40\<rparr>"






text \<open>The live node \<open>y\<close> after \<^verbatim>\<open>_copyProps\<close> has copied onto it from the candidate \<open>x\<close>:
  \<^verbatim>\<open>value\<close>, \<^verbatim>\<open>checked\<close> and \<^verbatim>\<open>indeterminate\<close> where the prototype of the live node owns
  \<^verbatim>\<open>value\<close>, and \<^verbatim>\<open>selected\<close> and \<^verbatim>\<open>_data\<close> always.\<close>

definition after_copy :: "node \<Rightarrow> node \<Rightarrow> node" where
  "after_copy x y =
     y\<lparr>prop_value := (if proto_has_value y then prop_value x else prop_value y),
       prop_checked := (if proto_has_value y then prop_checked x else prop_checked y),
       prop_indeterminate := (if proto_has_value y then prop_indeterminate x else prop_indeterminate y),
       prop_selected := prop_selected x,
       prop_data := prop_data x\<rparr>"

text \<open>The candidate is a tree of its own (no node of the candidate and its element children
  is the live node or one of its element children, and these are distinct), or it is the
  live node itself, as where the candidate is the staged clone of a child Component.\<close>

definition separate_or_same :: "world \<Rightarrow> nid \<Rightarrow> nid \<Rightarrow> bool" where
  "separate_or_same w new_dom_node old_dom_node =
     (new_dom_node = old_dom_node
      \<or> (distinct (old_dom_node # children w old_dom_node)
         \<and> list_all (\<lambda>n. n \<notin> set (old_dom_node # children w old_dom_node))
              (new_dom_node # children w new_dom_node)))"

text \<open>The live tree is \<^verbatim>\<open><body><form><input><input></form></body>\<close> (nodes 20 to 23); the
  user has typed into the first input and ticked the second. The candidate is a detached
  \<^verbatim>\<open><form><input><input></form>\<close> (nodes 31 to 33) as \<^verbatim>\<open>render\<close> makes it, with a \<^verbatim>\<open>_data\<close>
  object on the form.\<close>

definition world_form :: world where
  "world_form = world0\<lparr>
     nodes := (\<lambda>_. blank_node)
       (20 := elem ''BODY'' [] [21] None,
        21 := elem ''FORM'' [] [22, 23] (Some 20),
        22 := input_node ''typed'' (Some 21),
        23 := (input_node [] (Some 21))\<lparr>prop_checked := Some True\<rparr>,
        31 := (elem ''FORM'' [] [32, 33] None)\<lparr>prop_data := Some 9\<rparr>,
        32 := input_node [] (Some 31),
        33 := input_node [] (Some 31)),
     document_root := 20, next_ref := 40\<rparr>"



subsection \<open>What the claims about the insertion engine speak of\<close>





text \<open>The tree is \<^verbatim>\<open><body><div></div></body>\<close> (nodes 20 and 21) and a detached
  \<^verbatim>\<open><span></span>\<close> (node 31). Instance 7 is the collection of the div; instance 8 is a
  Component on the span, not mounted yet, with a \<^verbatim>\<open>render\<close> and the two mount hooks.\<close>

definition world_insert :: world where
  "world_insert = world0\<lparr>
     nodes := (\<lambda>_. blank_node)
       (20 := elem ''BODY'' [] [21] None,
        21 := elem ''DIV'' [] [] (Some 20),
        31 := elem ''SPAN'' [] [] None),
     comps := (\<lambda>_. prototype)
       (7 := prototype\<lparr>elems := [21]\<rparr>,
        8 := prototype\<lparr>elems := [31], render := Some 1, willMount := Some 5, didMount := Some 4\<rparr>),
     document_root := 20, next_ref := 40\<rparr>"

text \<open>The tree is \<^verbatim>\<open><body><ul><li/><li/><li/><li/></ul><ol><li/></ol></body>\<close>: the lists
  are the nodes 21 and 22, the items of the first are the nodes 23 to 26, the item of the
  second is node 27. Instance 7 is the collection of the second list.\<close>

definition world_lists :: world where
  "world_lists = world0\<lparr>
     nodes := (\<lambda>_. blank_node)
       (20 := elem ''BODY'' [] [21, 22] None,
        21 := elem ''UL'' [] [23, 24, 25, 26] (Some 20),
        22 := elem ''OL'' [] [27] (Some 20),
        23 := elem ''LI'' [] [] (Some 21),
        24 := elem ''LI'' [] [] (Some 21),
        25 := elem ''LI'' [] [] (Some 21),
        26 := elem ''LI'' [] [] (Some 21),
        27 := elem ''LI'' [] [] (Some 22)),
     comps := (\<lambda>_. prototype)(7 := prototype\<lparr>elems := [22]\<rparr>),
     document_root := 20, next_ref := 40\<rparr>"

section \<open>Theorems\<close>

subsection \<open>watch\<close>

text \<open>
  C5, as the code has it. A write through the Proxy first performs the write onto the
  underlying object and then invokes the callback with \<open>(key, true)\<close>; a delete first
  deletes and then invokes the callback with \<open>(key, false)\<close>. So the callback of a write
  runs in a world where the underlying object already holds the written value, and the
  callback of a delete in one where the key is gone.
\<close>

theorem C5_write_then_callback:
  "set_trap cb this obj key v w = cb this key True (write_prop obj key v w)
   \<and> read_prop obj key (write_prop obj key v w) = v
   \<and> deleteProperty_trap cb this obj key w = cb this key False (delete_prop obj key w)
   \<and> read_prop obj key (delete_prop obj key w) = Undefined
   \<and> proxy_set cb p key v w = cb (handler (proxies w p)) key True (write_prop (target (proxies w p)) key v w)
   \<and> proxy_delete cb p key w = cb (handler (proxies w p)) key False (delete_prop (target (proxies w p)) key w)"
  by (simp add: set_trap_def deleteProperty_trap_def proxy_set_def proxy_delete_def
      read_prop_def write_prop_def delete_prop_def)

text \<open>
  C5 as stated fails: were the callback invoked before the write, the snapshot callback
  would see the old value \<^verbatim>\<open>1\<close> of \<^verbatim>\<open>a\<close> when \<^verbatim>\<open>state.a = 2\<close> runs. It sees \<^verbatim>\<open>2\<close>.
\<close>

theorem C5_counterexample:
  "map_sum id (read_prop 9 ''seen'') (set_trap snapshot_callback 0 1 ''a'' (Num 2) world_state) = Inr (Num 2)
   \<and> read_prop 1 ''a'' world_state = Num 1"
  by (simp add: set_trap_def snapshot_callback_def read_prop_def write_prop_def world_state_def world0_def)

lemma get_trap_wraps:
  assumes "objs w obj key = Some (Obj d)" and "first_char key \<noteq> Some CHR ''_''"
  shows "get_trap this obj key w = (Wrapper (next_ref w), snd (new_Proxy d this w))"
  using assms
  by (simp add: get_trap_def read_prop_def typeof_object_def loose_eq_null_def
      instanceof_CalDom_def new_Proxy_def)

text \<open>
  C10. Reading, through the \<^verbatim>\<open>get\<close> trap, a key that does not start with an underscore
  and holds an ordinary object makes a fresh Proxy each time: two reads of the same key
  return two wrappers that are not the same object, with the same target and the same
  handler, so that a read, a write or a delete through either wrapper is the same
  operation on the one underlying object.
\<close>

theorem C10_fresh_wrapper_each_read:
  assumes "objs w obj key = Some (Obj d)" and "first_char key \<noteq> Some CHR ''_''"
  shows "\<exists>p1 w1 p2 w2.
           get_trap this obj key w = (Wrapper p1, w1)
         \<and> get_trap this obj key w1 = (Wrapper p2, w2)
         \<and> p1 \<noteq> p2
         \<and> target (proxies w2 p1) = d \<and> target (proxies w2 p2) = d
         \<and> handler (proxies w2 p1) = this \<and> handler (proxies w2 p2) = this
         \<and> objs w2 = objs w
         \<and> proxy_get p1 k w2 = get_trap this d k w2
         \<and> proxy_get p2 k w2 = get_trap this d k w2
         \<and> proxy_set cb p1 k v w2 = cb this k True (write_prop d k v w2)
         \<and> proxy_set cb p2 k v w2 = cb this k True (write_prop d k v w2)
         \<and> proxy_delete cb p1 k w2 = cb this k False (delete_prop d k w2)
         \<and> proxy_delete cb p2 k w2 = cb this k False (delete_prop d k w2)"
proof -
  define w1 where "w1 = snd (new_Proxy d this w)"
  define w2 where "w2 = snd (new_Proxy d this w1)"
  have o1: "objs w1 = objs w" and n1: "next_ref w1 = Suc (next_ref w)"
    by (simp_all add: w1_def new_Proxy_def)
  have r1: "get_trap this obj key w = (Wrapper (next_ref w), w1)"
    using get_trap_wraps [of w obj key d this] assms by (simp add: w1_def)
  have r2: "get_trap this obj key w1 = (Wrapper (Suc (next_ref w)), w2)"
    using get_trap_wraps [of w1 obj key d this] assms o1 n1 by (simp add: w2_def)
  have px: "proxies w2 (next_ref w) = \<lparr>target = d, handler = this\<rparr>"
      "proxies w2 (Suc (next_ref w)) = \<lparr>target = d, handler = this\<rparr>"
      "objs w2 = objs w"
    by (simp_all add: w2_def w1_def new_Proxy_def)
  show ?thesis
    using r1 r2 px
    by (simp add: proxy_get_def proxy_set_def proxy_delete_def set_trap_def
        deleteProperty_trap_def)
qed

theorem C10_witness:
  "objs world_state 1 ''user'' = Some (Obj 2) \<and> first_char ''user'' \<noteq> Some CHR ''_''
   \<and> fst (get_trap 0 1 ''user'' world_state) = Wrapper 10
   \<and> fst (get_trap 0 1 ''user'' (snd (get_trap 0 1 ''user'' world_state))) = Wrapper 11"
  using C10_fresh_wrapper_each_read [of world_state 1 "''user''" 2 0]
  by (simp add: get_trap_def read_prop_def typeof_object_def loose_eq_null_def
      instanceof_CalDom_def new_Proxy_def first_char_def world_state_def world0_def)

subsection \<open>react: scheduling\<close>

lemma react_schedule_comps:
  "comps (react_schedule this a w) c =
     (if c = this
      then (comps w this)\<lparr>
             change_count := (if update (comps w this) \<noteq> None \<and> argc a \<noteq> 0
                              then Suc (change_count (comps w this)) else change_count (comps w this)),
             z_handle := (if truthy_handle (z_handle (comps w this)) then z_handle (comps w this)
                          else Some (Suc (raf_last w)))\<rparr>
      else comps w c)"
  by (simp add: react_schedule_def Let_def upd_comp_def write_prop_def requestAnimationFrame_def
      emit_def split: prod.splits)

lemma react_schedule_objs:
  "objs (react_schedule this a w) =
     (if update (comps w this) \<noteq> None
      then (objs w)(changed_keys (comps w this) :=
             (objs w (changed_keys (comps w this)))
               (key_string (state_changed_key a) \<mapsto> bool_value (state_is_key_available a)))
      else objs w)"
  by (simp add: react_schedule_def Let_def upd_comp_def write_prop_def requestAnimationFrame_def
      emit_def split: prod.splits)

lemma react_schedule_queue:
  "raf_queue (react_schedule this a w) =
     (if truthy_handle (z_handle (comps w this)) then raf_queue w
      else raf_queue w @ [(Suc (raf_last w), this)])"
  "raf_last (react_schedule this a w) =
     (if truthy_handle (z_handle (comps w this)) then raf_last w else Suc (raf_last w))"
  "trace (react_schedule this a w) =
     (if truthy_handle (z_handle (comps w this)) then trace w
      else trace w @ [RequestAnimationFrame (Suc (raf_last w)) this])"
  "proxies (react_schedule this a w) = proxies w"
  "nodes (react_schedule this a w) = nodes w"
  by (simp_all add: react_schedule_def Let_def upd_comp_def write_prop_def requestAnimationFrame_def
      emit_def split: prod.splits)

text \<open>
  C6, as the code has it. From the idle state a zero-argument \<^verbatim>\<open>react()\<close> moves the
  instance to the scheduled state and records one animation-frame callback, unless the
  flag \<^verbatim>\<open>watched\<close> of the instance is true: then the call returns at once and nothing
  is scheduled. The flag is undefined by default and false where the host has no Proxy.
\<close>

theorem C6_zero_argument_react:
  assumes "z_handle (comps w this) = None"
  shows "if watched (comps w this) = Some True
         then react k env this no_args w = Inr w
         else (\<exists>w'. react k env this no_args w = Inr w'
                \<and> z_handle (comps w' this) = Some (Suc (raf_last w))
                \<and> truthy_handle (z_handle (comps w' this))
                \<and> raf_queue w' = raf_queue w @ [(Suc (raf_last w), this)]
                \<and> trace w' = trace w @ [RequestAnimationFrame (Suc (raf_last w)) this])"
  using assms
  by (simp add: react_def no_args_def react_schedule_comps react_schedule_queue truthy_handle_def)

theorem C6_witness:
  "z_handle (comps world_components 7) = None
   \<and> watched (comps world_components 7) = None
   \<and> map_sum fst (\<lambda>w'. (z_handle (comps w' 7), raf_queue w'))
       (react 3 (env_update_returns False) 7 no_args world_components) = Inr (Some 1, [(1, 7)])"
  using C6_zero_argument_react [of world_components 7 3 "env_update_returns False"]
  by (auto simp add: world_components_def world0_def prototype_def)

text \<open>
  C6 as stated fails: with \<^verbatim>\<open>watched: true\<close> an idle instance stays idle after \<^verbatim>\<open>react()\<close>;
  no frame callback is recorded.
\<close>

theorem C6_counterexample:
  "z_handle (comps world_components 5) = None
   \<and> render (comps world_components 5) = Some 1
   \<and> watched (comps world_components 5) = Some True
   \<and> react 3 (env_update_returns False) 5 no_args world_components = Inr world_components
   \<and> raf_queue world_components = []"
  by (simp add: react_def no_args_def world_components_def world0_def prototype_def)

subsection \<open>react: coalescing of state mutations\<close>

lemma mutate_step:
  assumes "handler (proxies w (mutation_proxy m)) = this"
  shows "mutate k env m w =
           Inr (react_schedule this (watch_args (mutation_key m) (mutation_available m))
                  (store_mutation m w))"
  using assms
  by (cases m)
     (simp_all add: proxy_set_def proxy_delete_def set_trap_def deleteProperty_trap_def
        state_callback_def react_def watch_args_def no_args_def)

lemma store_mutation_frame:
  "comps (store_mutation m w) = comps w"
  "proxies (store_mutation m w) = proxies w"
  "raf_queue (store_mutation m w) = raf_queue w"
  "raf_last (store_mutation m w) = raf_last w"
  "trace (store_mutation m w) = trace w"
  "nodes (store_mutation m w) = nodes w"
  by (cases m; simp add: write_prop_def delete_prop_def)+

lemma store_mutation_other:
  "target (proxies w (mutation_proxy m)) \<noteq> l \<Longrightarrow> objs (store_mutation m w) l = objs w l"
  by (cases m) (simp_all add: write_prop_def delete_prop_def)

text \<open>One mutation of the watched state of an instance: the key is recorded and counted
  only where the instance has an \<^verbatim>\<open>update\<close> function.\<close>

lemma mutate_once:
  assumes h: "handler (proxies w (mutation_proxy m)) = this"
    and t: "target (proxies w (mutation_proxy m)) \<noteq> changed_keys (comps w this)"
  shows "\<exists>w'. mutate k env m w = Inr w'
          \<and> proxies w' = proxies w
          \<and> update (comps w' this) = update (comps w this)
          \<and> changed_keys (comps w' this) = changed_keys (comps w this)
          \<and> change_count (comps w' this) =
              (if update (comps w this) \<noteq> None then Suc (change_count (comps w this))
               else change_count (comps w this))
          \<and> objs w' (changed_keys (comps w this)) =
              (if update (comps w this) \<noteq> None
               then (objs w (changed_keys (comps w this)))(mutation_key m \<mapsto> Bool (mutation_available m))
               else objs w (changed_keys (comps w this)))
          \<and> truthy_handle (z_handle (comps w' this))
          \<and> (if truthy_handle (z_handle (comps w this))
              then z_handle (comps w' this) = z_handle (comps w this)
                   \<and> raf_queue w' = raf_queue w \<and> raf_last w' = raf_last w \<and> trace w' = trace w
              else z_handle (comps w' this) = Some (Suc (raf_last w))
                   \<and> raf_queue w' = raf_queue w @ [(Suc (raf_last w), this)]
                   \<and> trace w' = trace w @ [RequestAnimationFrame (Suc (raf_last w)) this])"
  using t
  by (simp add: mutate_step [OF h] react_schedule_comps react_schedule_objs react_schedule_queue
      store_mutation_frame store_mutation_other watch_args_def no_args_def key_string_def
      bool_value_def truthy_handle_def)

text \<open>Mutations while a pass is already scheduled: nothing is rescheduled.\<close>

lemma mutate_all_scheduled:
  assumes "\<forall>m\<in>set ms. handler (proxies w (mutation_proxy m)) = this
                    \<and> target (proxies w (mutation_proxy m)) \<noteq> changed_keys (comps w this)"
    and "truthy_handle (z_handle (comps w this))"
  shows "\<exists>w'. mutate_all k env ms w = Inr w'
          \<and> change_count (comps w' this) =
              (if update (comps w this) \<noteq> None then change_count (comps w this) + length ms
               else change_count (comps w this))
          \<and> changed_keys (comps w' this) = changed_keys (comps w this)
          \<and> objs w' (changed_keys (comps w this)) =
              (if update (comps w this) \<noteq> None
               then ledger_after ms (objs w (changed_keys (comps w this)))
               else objs w (changed_keys (comps w this)))
          \<and> z_handle (comps w' this) = z_handle (comps w this)
          \<and> raf_queue w' = raf_queue w \<and> trace w' = trace w"
  using assms
proof (induction ms arbitrary: w)
  case Nil
  then show ?case by (simp add: ledger_after_def)
next
  case (Cons m ms)
  from Cons.prems obtain w1 where
    s: "mutate k env m w = Inr w1" and
    p: "proxies w1 = proxies w" "update (comps w1 this) = update (comps w this)"
       "changed_keys (comps w1 this) = changed_keys (comps w this)" and
    c: "change_count (comps w1 this) =
          (if update (comps w this) \<noteq> None then Suc (change_count (comps w this))
           else change_count (comps w this))" and
    l: "objs w1 (changed_keys (comps w this)) =
          (if update (comps w this) \<noteq> None
           then (objs w (changed_keys (comps w this)))(mutation_key m \<mapsto> Bool (mutation_available m))
           else objs w (changed_keys (comps w this)))" and
    z: "z_handle (comps w1 this) = z_handle (comps w this)" "raf_queue w1 = raf_queue w" "trace w1 = trace w"
    using mutate_once [of w m this k env] by auto
  have "\<exists>w'. mutate_all k env ms w1 = Inr w'
          \<and> change_count (comps w' this) =
              (if update (comps w1 this) \<noteq> None then change_count (comps w1 this) + length ms
               else change_count (comps w1 this))
          \<and> changed_keys (comps w' this) = changed_keys (comps w1 this)
          \<and> objs w' (changed_keys (comps w1 this)) =
              (if update (comps w1 this) \<noteq> None
               then ledger_after ms (objs w1 (changed_keys (comps w1 this)))
               else objs w1 (changed_keys (comps w1 this)))
          \<and> z_handle (comps w' this) = z_handle (comps w1 this)
          \<and> raf_queue w' = raf_queue w1 \<and> trace w' = trace w1"
    using Cons.prems p z by (intro Cons.IH) auto
  then show ?case
    using s p c l z by (auto simp: ledger_after_def)
qed

lemma dom_ledger_after:
  "dom (ledger_after ms ledger) = dom ledger \<union> mutation_key ` set ms"
  unfolding ledger_after_def
  by (induction ms arbitrary: ledger) auto

text \<open>
  C3, as the code has it. \<open>N \<ge> 1\<close> mutations of the watched state of an instance, starting
  from the idle state, request exactly one animation frame (the first mutation does, the
  later ones find \<^verbatim>\<open>_z\<close> set). Where the instance has an \<^verbatim>\<open>update\<close> function, the ledger
  afterwards holds, over what it held before, every key touched with the flag of its last
  touch (true for a write, false for a delete), and the change count has grown by \<open>N\<close>.
  Where it has none, the ledger and the change count are as they were.
\<close>

theorem C3_coalescing_with_update:
  assumes ms: "ms \<noteq> []"
    and px: "\<forall>m\<in>set ms. handler (proxies w (mutation_proxy m)) = this
                    \<and> target (proxies w (mutation_proxy m)) \<noteq> changed_keys (comps w this)"
    and idle: "z_handle (comps w this) = None"
  shows "\<exists>w'. mutate_all k env ms w = Inr w'
          \<and> raf_queue w' = raf_queue w @ [(Suc (raf_last w), this)]
          \<and> trace w' = trace w @ [RequestAnimationFrame (Suc (raf_last w)) this]
          \<and> z_handle (comps w' this) = Some (Suc (raf_last w))
          \<and> changed_keys (comps w' this) = changed_keys (comps w this)
          \<and> (if update (comps w this) \<noteq> None
              then change_count (comps w' this) = change_count (comps w this) + length ms
                 \<and> objs w' (changed_keys (comps w this)) = ledger_after ms (objs w (changed_keys (comps w this)))
                 \<and> dom (objs w' (changed_keys (comps w this)))
                      = dom (objs w (changed_keys (comps w this))) \<union> mutation_key ` set ms
              else change_count (comps w' this) = change_count (comps w this)
                 \<and> objs w' (changed_keys (comps w this)) = objs w (changed_keys (comps w this)))"
proof -
  from ms obtain m rest where mr: "ms = m # rest" by (cases ms) auto
  from px idle mr obtain w1 where
    s: "mutate k env m w = Inr w1" and
    p: "proxies w1 = proxies w" "update (comps w1 this) = update (comps w this)"
       "changed_keys (comps w1 this) = changed_keys (comps w this)" and
    c: "change_count (comps w1 this) =
          (if update (comps w this) \<noteq> None then Suc (change_count (comps w this))
           else change_count (comps w this))" and
    l: "objs w1 (changed_keys (comps w this)) =
          (if update (comps w this) \<noteq> None
           then (objs w (changed_keys (comps w this)))(mutation_key m \<mapsto> Bool (mutation_available m))
           else objs w (changed_keys (comps w this)))" and
    t: "truthy_handle (z_handle (comps w1 this))" and
    z: "z_handle (comps w1 this) = Some (Suc (raf_last w))"
       "raf_queue w1 = raf_queue w @ [(Suc (raf_last w), this)]"
       "trace w1 = trace w @ [RequestAnimationFrame (Suc (raf_last w)) this]"
    using mutate_once [of w m this k env] by (auto simp: truthy_handle_def)
  have "\<exists>w'. mutate_all k env rest w1 = Inr w'
          \<and> change_count (comps w' this) =
              (if update (comps w1 this) \<noteq> None then change_count (comps w1 this) + length rest
               else change_count (comps w1 this))
          \<and> changed_keys (comps w' this) = changed_keys (comps w1 this)
          \<and> objs w' (changed_keys (comps w1 this)) =
              (if update (comps w1 this) \<noteq> None
               then ledger_after rest (objs w1 (changed_keys (comps w1 this)))
               else objs w1 (changed_keys (comps w1 this)))
          \<and> z_handle (comps w' this) = z_handle (comps w1 this)
          \<and> raf_queue w' = raf_queue w1 \<and> trace w' = trace w1"
    using px p t mr by (intro mutate_all_scheduled) auto
  then obtain w' where
    r: "mutate_all k env rest w1 = Inr w'" and
    c': "change_count (comps w' this) =
          (if update (comps w this) \<noteq> None then change_count (comps w1 this) + length rest
           else change_count (comps w1 this))" and
    k': "changed_keys (comps w' this) = changed_keys (comps w this)" and
    l': "objs w' (changed_keys (comps w this)) =
          (if update (comps w this) \<noteq> None
           then ledger_after rest (objs w1 (changed_keys (comps w this)))
           else objs w1 (changed_keys (comps w this)))" and
    z': "z_handle (comps w' this) = z_handle (comps w1 this)"
        "raf_queue w' = raf_queue w1" "trace w' = trace w1"
    using p by auto
  have res: "mutate_all k env ms w = Inr w'"
    using s r mr by simp
  show ?thesis
  proof (cases "update (comps w this) \<noteq> None")
    case True
    with c c' l l' mr have
      "change_count (comps w' this) = change_count (comps w this) + length ms"
      "objs w' (changed_keys (comps w this)) = ledger_after ms (objs w (changed_keys (comps w this)))"
      by (simp_all add: ledger_after_def)
    with True res k' z z' dom_ledger_after [of ms "objs w (changed_keys (comps w this))"]
    show ?thesis by simp
  next
    case False
    with c c' l l' have
      "change_count (comps w' this) = change_count (comps w this)"
      "objs w' (changed_keys (comps w this)) = objs w (changed_keys (comps w this))"
      by simp_all
    with False res k' z z' show ?thesis by simp
  qed
qed

lemma world_components_simps:
  "comps world_components 6 = prototype\<lparr>elems := [1], update := Some 2, mounted := True,
     state := Watched 3, changed_keys := 8\<rparr>"
  "comps world_components 7 = prototype\<lparr>elems := [2], render := Some 1, mounted := True,
     state := Watched 4\<rparr>"
  "proxies world_components 3 = \<lparr>target = 1, handler = 6\<rparr>"
  "proxies world_components 4 = \<lparr>target = 2, handler = 7\<rparr>"
  "objs world_components 8 = Map.empty"
  "objs world_components 0 = Map.empty"
  "raf_queue world_components = []"
  "raf_last world_components = 0"
  "trace world_components = []"
  "has_Proxy world_components"
  by (simp_all add: world_components_def world0_def)

theorem C3_witness:
  "map_sum fst (\<lambda>w'. (raf_queue w', change_count (comps w' 6), objs w' 8 ''a'', objs w' 8 ''b'', objs w' 8 ''c''))
     (mutate_all 3 (env_update_returns False)
        [SetKey 3 ''a'' (Num 5), SetKey 3 ''b'' (Num 6), DeleteKey 3 ''a''] world_components)
   = Inr ([(1, 6)], 3, Some (Bool False), Some (Bool True), None)
   \<and> map_sum fst (\<lambda>w'. (raf_queue w', change_count (comps w' 7), objs w' 0 ''a'', objs w' 0 ''b''))
       (mutate_all 3 (env_update_returns False)
          [SetKey 4 ''a'' (Num 5), DeleteKey 4 ''b''] world_components)
     = Inr ([(1, 7)], 0, None, None)"
proof -
  let ?ms = "[SetKey 3 ''a'' (Num 5), SetKey 3 ''b'' (Num 6), DeleteKey 3 ''a'']"
  let ?ns = "[SetKey 4 ''a'' (Num 5), DeleteKey 4 ''b'']"
  have px: "\<forall>m\<in>set ?ms. handler (proxies world_components (mutation_proxy m)) = 6
                    \<and> target (proxies world_components (mutation_proxy m)) \<noteq> changed_keys (comps world_components 6)"
    and py: "\<forall>m\<in>set ?ns. handler (proxies world_components (mutation_proxy m)) = 7
                    \<and> target (proxies world_components (mutation_proxy m)) \<noteq> changed_keys (comps world_components 7)"
    by (simp_all add: world_components_simps prototype_def)
  have u: "update (comps world_components 6) \<noteq> None" "update (comps world_components 7) = None"
    and idle: "z_handle (comps world_components 6) = None" "z_handle (comps world_components 7) = None"
    by (simp_all add: world_components_simps prototype_def)
  from C3_coalescing_with_update [OF _ px idle(1), of 3 "env_update_returns False"] u(1)
  obtain w' where
    "mutate_all 3 (env_update_returns False) ?ms world_components = Inr w'"
    "raf_queue w' = raf_queue world_components @ [(Suc (raf_last world_components), 6)]"
    "change_count (comps w' 6) = change_count (comps world_components 6) + length ?ms"
    "objs w' (changed_keys (comps world_components 6))
       = ledger_after ?ms (objs world_components (changed_keys (comps world_components 6)))"
    by auto
  then have first: "map_sum fst (\<lambda>w'. (raf_queue w', change_count (comps w' 6), objs w' 8 ''a'', objs w' 8 ''b'', objs w' 8 ''c''))
     (mutate_all 3 (env_update_returns False) ?ms world_components)
   = Inr ([(1, 6)], 3, Some (Bool False), Some (Bool True), None)"
    by (simp add: world_components_simps prototype_def ledger_after_def)
  from C3_coalescing_with_update [OF _ py idle(2), of 3 "env_update_returns False"] u(2)
  obtain w'' where
    "mutate_all 3 (env_update_returns False) ?ns world_components = Inr w''"
    "raf_queue w'' = raf_queue world_components @ [(Suc (raf_last world_components), 7)]"
    "change_count (comps w'' 7) = change_count (comps world_components 7)"
    "objs w'' (changed_keys (comps world_components 7))
       = objs world_components (changed_keys (comps world_components 7))"
    by auto
  then have second: "map_sum fst (\<lambda>w'. (raf_queue w', change_count (comps w' 7), objs w' 0 ''a'', objs w' 0 ''b''))
       (mutate_all 3 (env_update_returns False) ?ns world_components)
     = Inr ([(1, 7)], 0, None, None)"
    by (simp add: world_components_simps prototype_def)
  from first second show ?thesis by simp
qed

text \<open>
  C3 as stated fails for an instance without an \<^verbatim>\<open>update\<close> function: the pass is
  scheduled, but the ledger and the change count are not touched. After one write to the
  watched state of instance 7 its change count is 0 and its ledger (the prototype's
  object, at reference 0) is empty.
\<close>

theorem C3_counterexample:
  "map_sum fst (\<lambda>w'. (raf_queue w', change_count (comps w' 7), objs w' (changed_keys (comps w' 7)) ''a''))
     (mutate_all 3 (env_update_returns False) [SetKey 4 ''a'' (Num 5)] world_components)
   = Inr ([(1, 7)], 0, None)"
  by (simp add: proxy_set_def set_trap_def state_callback_def react_def watch_args_def no_args_def
      react_schedule_comps react_schedule_queue react_schedule_objs write_prop_def
      world_components_simps prototype_def truthy_handle_def)

subsection \<open>react: the pass of a component without render\<close>

text \<open>
  C9. A mounted instance has an \<^verbatim>\<open>update\<close> function and no \<^verbatim>\<open>render\<close>. In a pass (a call of
  \<^verbatim>\<open>react\<close> that is not a mount call and passes the scheduling branch; the frame callback
  is one) \<^verbatim>\<open>update\<close> is called. If it returns a truthy value the pass calls the undefined
  \<^verbatim>\<open>render\<close>: a TypeError, thrown in the world that \<^verbatim>\<open>update\<close> left, so the ledger is not
  reset and \<^verbatim>\<open>didUpdate\<close> is not fired. If it returns a falsy value the pass ends with
  \<^verbatim>\<open>_didUpdate\<close>. So the pass returns normally exactly when \<^verbatim>\<open>update\<close> returned falsy.
\<close>

lemma react_frame_args:
  "has_Proxy w \<Longrightarrow> react k env this frame_args w = react_pass k env this frame_args w"
  by (simp add: react_def frame_args_def no_args_def react_configure_def loose_eq_null_def)

theorem C9_update_without_render:
  assumes "mounted (comps w this)"
    and "update (comps w this) = Some f"
    and "render (comps w this) = None"
    and "call_update env f this (changed_keys (comps w this)) (change_count (comps w this))
           (upd_comp this (\<lambda>c. c\<lparr>z_handle := None\<rparr>) w) = (continue_to_render, w3)"
    and "render (comps w3 this) = None"
    and "\<not> mounting a"
  shows "react_pass k env this a w =
           (if continue_to_render then Inl (TypeError, w3) else Inr (priv_didUpdate this w3))
       \<and> (has_Proxy w \<longrightarrow> react k env this frame_args w =
           (if continue_to_render then Inl (TypeError, w3) else Inr (priv_didUpdate this w3)))
       \<and> ((\<exists>w'. react_pass k env this a w = Inr w') \<longleftrightarrow> \<not> continue_to_render)"
proof -
  have p: "react_pass k env this b w =
           (if continue_to_render then Inl (TypeError, w3) else Inr (priv_didUpdate this w3))"
    if "\<not> mounting b" for b
    using assms(1-5) that
    by (simp add: react_pass_def Let_def upd_comp_def react_render_def)
  have "has_Proxy w \<longrightarrow> react k env this frame_args w =
           (if continue_to_render then Inl (TypeError, w3) else Inr (priv_didUpdate this w3))"
    using p [of frame_args] by (simp add: react_frame_args) (simp add: frame_args_def no_args_def)
  then show ?thesis
    using p [of a] assms(6) by simp
qed

theorem C9_witness:
  "react 3 (env_update_returns True) 6 frame_args world_components
     = Inl (TypeError, upd_comp 6 (\<lambda>c. c\<lparr>z_handle := None\<rparr>) world_components)
   \<and> map_sum fst (\<lambda>w'. (trace w', changed_keys (comps w' 6)))
       (react 3 (env_update_returns False) 6 frame_args world_components) = Inr ([], 10)"
proof -
  have m: "mounted (comps world_components 6)" "update (comps world_components 6) = Some 2"
    "render (comps world_components 6) = None"
    "render (comps (upd_comp 6 (\<lambda>c. c\<lparr>z_handle := None\<rparr>) world_components) 6) = None"
    "\<not> mounting frame_args"
    by (simp_all add: world_components_simps prototype_def upd_comp_def frame_args_def no_args_def)
  have c: "call_update (env_update_returns b) 2 6 (changed_keys (comps world_components 6))
             (change_count (comps world_components 6))
             (upd_comp 6 (\<lambda>c. c\<lparr>z_handle := None\<rparr>) world_components)
           = (b, upd_comp 6 (\<lambda>c. c\<lparr>z_handle := None\<rparr>) world_components)" for b
    by (simp add: env_update_returns_def)
  show ?thesis
    using C9_update_without_render [OF m(1-3) c [of True] m(4,5), of 3]
      C9_update_without_render [OF m(1-3) c [of False] m(4,5), of 3]
    by (simp add: world_components_simps priv_didUpdate_def upd_comp_def prototype_def
        world_components_def world0_def)
qed

subsection \<open>_replace: what the DOM operations leave\<close>

lemma parent_of_trace [simp]:
  "parent_of (emit e w) = parent_of w"
  "parent_of (priv_willUnmount c d w) = parent_of w"
  "parent_of (priv_didUnmount c d w) = parent_of w"
  by (simp_all add: parent_of_def emit_def priv_willUnmount_def priv_didUnmount_def upd_comp_def Let_def)

lemma nodes_emit [simp]: "nodes (emit e w) = nodes w"
  by (simp add: emit_def)

lemma comps_emit [simp]: "comps (emit e w) = comps w"
  by (simp add: emit_def)

lemma trace_emit [simp]: "trace (emit e w) = trace w @ [e]"
  by (simp add: emit_def)

lemma pre_insert_check_willUnmount [simp]:
  "pre_insert_check q n c (priv_willUnmount c' d w) = pre_insert_check q n c w"
  by (auto simp: pre_insert_check_def split: option.splits bool.splits)




lemma comps_priv_willUnmount [simp]: "comps (priv_willUnmount c d w) = comps w"
  by (simp add: priv_willUnmount_def)

lemma nodes_detach_attributes [simp]:
  "attributes (nodes (detach n w) x) = attributes (nodes w x)"
  by (simp add: detach_def upd_node_def split: option.splits)

lemma nodes_attach_attributes [simp]:
  "attributes (nodes (attach q n r w) x) = attributes (nodes w x)"
  by (simp add: attach_def upd_node_def)

lemma trace_detach [simp]: "trace (detach n w) = trace w"
  by (simp add: detach_def upd_node_def split: option.splits)

lemma trace_attach [simp]: "trace (attach q n r w) = trace w"
  by (simp add: attach_def upd_node_def)

lemma comps_detach [simp]: "comps (detach n w) = comps w"
  by (simp add: detach_def upd_node_def split: option.splits)

lemma comps_attach [simp]: "comps (attach q n r w) = comps w"
  by (simp add: attach_def upd_node_def)





lemma set_insert_before_in [simp]:
  "set (insert_before_in n r cs) = insert n (set cs)"
proof (cases r)
  case None
  then show ?thesis by (simp add: insert_before_in_def)
next
  case (Some x)
  have "set cs = set (takeWhile (\<lambda>c. c \<noteq> x) cs @ dropWhile (\<lambda>c. c \<noteq> x) cs)" by simp
  then show ?thesis unfolding insert_before_in_def Some by (auto simp del: takeWhile_dropWhile_id)
qed




lemma nodes_case_didUnmount [simp]:
  "nodes ((case h of Some c \<Rightarrow> priv_didUnmount c None | None \<Rightarrow> (\<lambda>x. x)) w) = nodes w"
  by (cases h) simp_all

lemma nodes_case_willUnmount [simp]:
  "nodes (case h of Some c \<Rightarrow> priv_willUnmount c None w | None \<Rightarrow> w) = nodes w"
  by (cases h) simp_all


lemma comps_case_willUnmount [simp]:
  "comps (case h of Some c \<Rightarrow> priv_willUnmount c None w | None \<Rightarrow> w) = comps w"
  by (cases h) simp_all


subsection \<open>_replace: what \<^verbatim>\<open>_copyProps\<close> leaves\<close>

lemma props_copied_only_refl: "props_copied_only S w w"
  by (simp add: props_copied_only_def)

lemma props_copied_only_trans:
  assumes "props_copied_only S w w1" and "props_copied_only T w1 w2"
  shows "props_copied_only (S \<union> T) w w2"
proof -
  from assms obtain e1 e2 where
    t: "trace w1 = trace w @ e1" "trace w2 = trace w1 @ e2" and
    e: "\<forall>e\<in>set e1. \<exists>n name. e = SetProp n name \<and> n \<in> S"
       "\<forall>e\<in>set e2. \<exists>n name. e = SetProp n name \<and> n \<in> T"
    unfolding props_copied_only_def by blast
  have r: "w1\<lparr>nodes := nodes w, trace := trace w\<rparr> = w" "w2\<lparr>nodes := nodes w1, trace := trace w1\<rparr> = w1"
    using assms unfolding props_copied_only_def by blast+
  have "w2\<lparr>nodes := nodes w, trace := trace w\<rparr>
          = (w2\<lparr>nodes := nodes w1, trace := trace w1\<rparr>)\<lparr>nodes := nodes w, trace := trace w\<rparr>"
    by simp
  then have r2: "w2\<lparr>nodes := nodes w, trace := trace w\<rparr> = w"
    using r by simp
  have tr: "trace w2 = trace w @ (e1 @ e2)" using t by simp
  have ev: "\<forall>e\<in>set (e1 @ e2). \<exists>n name. e = SetProp n name \<and> n \<in> S \<union> T"
    using e by auto
  show ?thesis
    unfolding props_copied_only_def
    using assms r2 tr ev
    by (auto simp: props_copied_only_def)
qed

lemma props_copied_only_mono:
  "props_copied_only S w w' \<Longrightarrow> S \<subseteq> T \<Longrightarrow> props_copied_only T w w'"
  unfolding props_copied_only_def by blast

lemma copy_prop_value:
  "props_copied_only {old} w (copy_prop prop_value (\<lambda>v x. x\<lparr>prop_value := v\<rparr>) name n old w)"
  by (simp add: copy_prop_def props_copied_only_def upd_node_def emit_def tree_part_def)

lemma copy_prop_checked:
  "props_copied_only {old} w (copy_prop prop_checked (\<lambda>v x. x\<lparr>prop_checked := v\<rparr>) name n old w)"
  by (simp add: copy_prop_def props_copied_only_def upd_node_def emit_def tree_part_def)

lemma copy_prop_indeterminate:
  "props_copied_only {old} w (copy_prop prop_indeterminate (\<lambda>v x. x\<lparr>prop_indeterminate := v\<rparr>) name n old w)"
  by (simp add: copy_prop_def props_copied_only_def upd_node_def emit_def tree_part_def)

lemma copy_prop_selected:
  "props_copied_only {old} w (copy_prop prop_selected (\<lambda>v x. x\<lparr>prop_selected := v\<rparr>) name n old w)"
  by (simp add: copy_prop_def props_copied_only_def upd_node_def emit_def tree_part_def)

lemma copy_prop_data:
  "props_copied_only {old} w (copy_prop prop_data (\<lambda>v x. x\<lparr>prop_data := v\<rparr>) name n old w)"
  by (simp add: copy_prop_def props_copied_only_def upd_node_def emit_def tree_part_def)

lemma copyProps_own_frame: "props_copied_only {old} w (copyProps_own n old w)"
proof -
  have u: "props_copied_only ({old} \<union> {old}) a c"
    if "props_copied_only {old} a b" "props_copied_only {old} b c" for a b c
    using that by (rule props_copied_only_trans)
  have v: "props_copied_only {old} w
             (copy_prop prop_indeterminate (\<lambda>v x. x\<lparr>prop_indeterminate := v\<rparr>) ''indeterminate'' n old
                (copy_prop prop_checked (\<lambda>v x. x\<lparr>prop_checked := v\<rparr>) ''checked'' n old
                   (copy_prop prop_value (\<lambda>v x. x\<lparr>prop_value := v\<rparr>) ''value'' n old w)))"
    using u [OF u [OF copy_prop_value copy_prop_checked, simplified] copy_prop_indeterminate]
    by simp
  have s: "props_copied_only {old} a
             (copy_prop prop_data (\<lambda>v x. x\<lparr>prop_data := v\<rparr>) ''_data'' n old
                (copy_prop prop_selected (\<lambda>v x. x\<lparr>prop_selected := v\<rparr>) ''selected'' n old a))" for a
    using u [OF copy_prop_selected copy_prop_data] by simp
  show ?thesis
    unfolding copyProps_own_def Let_def
    using u [OF v s] u [OF props_copied_only_refl s]
    by (simp split: if_splits)
qed

lemma copyProps_own_agree: "props_agree w n old \<Longrightarrow> copyProps_own n old w = w"
  by (auto simp: copyProps_own_def props_agree_def copy_prop_def Let_def)

lemma copyProps_children_frame:
  "length ns \<le> length olds \<Longrightarrow>
   \<exists>w'. copyProps_children ns olds w = Inr w' \<and> props_copied_only (set olds) w w'"
proof (induction ns olds w rule: copyProps_children.induct)
  case (1 olds w)
  then show ?case by (simp add: props_copied_only_refl)
next
  case (2 n ns w)
  then show ?case by simp
next
  case (3 n ns old olds w)
  then obtain w' where
    r: "copyProps_children ns olds (copyProps_own n old w) = Inr w'" and
    f: "props_copied_only (set olds) (copyProps_own n old w) w'"
    by auto
  from props_copied_only_trans [OF copyProps_own_frame f]
  show ?case using r by simp
qed

lemma copyProps_children_agree:
  "length ns \<le> length olds \<Longrightarrow> \<forall>(n, old)\<in>set (zip ns olds). props_agree w n old \<Longrightarrow>
   copyProps_children ns olds w = Inr w"
  by (induction ns olds w rule: copyProps_children.induct) (auto simp: copyProps_own_agree)

lemma tree_part_fields:
  "kind (tree_part x) = kind x" "tagName (tree_part x) = tagName x"
  "nodeValue (tree_part x) = nodeValue x" "attributes (tree_part x) = attributes x"
  "childNodes (tree_part x) = childNodes x" "parentNode (tree_part x) = parentNode x"
  "node_h (tree_part x) = node_h x" "node_original_root (tree_part x) = node_original_root x"
  "proto_has_value (tree_part x) = proto_has_value x"
  by (simp_all add: tree_part_def)

lemma props_copied_only_tree:
  assumes "props_copied_only S w w'"
  shows "kind (nodes w' y) = kind (nodes w y)" "childNodes (nodes w' y) = childNodes (nodes w y)"
    "attributes (nodes w' y) = attributes (nodes w y)" "parentNode (nodes w' y) = parentNode (nodes w y)"
proof -
  from assms have "tree_part (nodes w' y) = tree_part (nodes w y)"
    by (simp add: props_copied_only_def)
  from arg_cong [OF this, of kind] arg_cong [OF this, of childNodes]
    arg_cong [OF this, of attributes] arg_cong [OF this, of parentNode]
  show "kind (nodes w' y) = kind (nodes w y)" "childNodes (nodes w' y) = childNodes (nodes w y)"
    "attributes (nodes w' y) = attributes (nodes w y)" "parentNode (nodes w' y) = parentNode (nodes w y)"
    by (simp_all only: tree_part_fields)
qed

lemma children_props_copied_only:
  assumes "props_copied_only S w w'"
  shows "children w' x = children w x"
  by (simp add: children_def props_copied_only_tree [OF assms])

text \<open>Deep-equal nodes have as many element children.\<close>

lemma isEqualNode_kind:
  "isEqualNode k w a b = Some True \<Longrightarrow> kind (nodes w a) = kind (nodes w b)"
  by (cases k) (auto simp: Let_def split: if_splits)

lemma eq_children_kinds:
  "eq_children (isEqualNode k w) xs ys = Some True \<Longrightarrow>
   map (\<lambda>c. kind (nodes w c)) xs = map (\<lambda>c. kind (nodes w c)) ys"
  by (induction "isEqualNode k w" xs ys rule: eq_children.induct)
     (auto split: option.splits bool.splits dest: isEqualNode_kind)

lemma length_filter_map_eq:
  "map f xs = map f ys \<Longrightarrow> length (filter (\<lambda>c. f c = v) xs) = length (filter (\<lambda>c. f c = v) ys)"
proof (induction xs arbitrary: ys)
  case Nil
  then show ?case by simp
next
  case (Cons x xs)
  then obtain y ys' where "ys = y # ys'" by (cases ys) auto
  with Cons show ?case by auto
qed

lemma isEqualNode_children:
  assumes "isEqualNode k w a b = Some True"
  shows "length (children w a) = length (children w b)"
proof -
  from assms obtain k' where k: "k = Suc k'" by (cases k) auto
  from assms have "eq_children (isEqualNode k' w) (childNodes (nodes w a)) (childNodes (nodes w b)) = Some True"
    unfolding k by (simp add: Let_def split: if_splits)
  from length_filter_map_eq [OF eq_children_kinds [OF this]]
  show ?thesis by (simp add: children_def)
qed

text \<open>What \<^verbatim>\<open>_copyProps\<close> leaves on the live node.\<close>

lemma nodes_copy_prop:
  "nodes (copy_prop get put name n old w) =
     (if get (nodes w old) \<noteq> get (nodes w n)
      then (nodes w)(old := put (get (nodes w n)) (nodes w old)) else nodes w)"
  by (simp add: copy_prop_def upd_node_def emit_def)

lemma nodes_copy_prop_fields:
  assumes "n \<noteq> old"
  shows
    "nodes (copy_prop prop_value (\<lambda>v x. x\<lparr>prop_value := v\<rparr>) name n old w)
       = (nodes w)(old := (nodes w old)\<lparr>prop_value := prop_value (nodes w n)\<rparr>)"
    "nodes (copy_prop prop_checked (\<lambda>v x. x\<lparr>prop_checked := v\<rparr>) name n old w)
       = (nodes w)(old := (nodes w old)\<lparr>prop_checked := prop_checked (nodes w n)\<rparr>)"
    "nodes (copy_prop prop_indeterminate (\<lambda>v x. x\<lparr>prop_indeterminate := v\<rparr>) name n old w)
       = (nodes w)(old := (nodes w old)\<lparr>prop_indeterminate := prop_indeterminate (nodes w n)\<rparr>)"
    "nodes (copy_prop prop_selected (\<lambda>v x. x\<lparr>prop_selected := v\<rparr>) name n old w)
       = (nodes w)(old := (nodes w old)\<lparr>prop_selected := prop_selected (nodes w n)\<rparr>)"
    "nodes (copy_prop prop_data (\<lambda>v x. x\<lparr>prop_data := v\<rparr>) name n old w)
       = (nodes w)(old := (nodes w old)\<lparr>prop_data := prop_data (nodes w n)\<rparr>)"
  by (simp_all add: nodes_copy_prop fun_eq_iff)

lemma nodes_copyProps_own:
  "nodes (copyProps_own n old w) = (nodes w)(old := after_copy (nodes w n) (nodes w old))"
proof (cases "n = old")
  case True
  then show ?thesis
    by (simp add: copyProps_own_def Let_def copy_prop_def after_copy_def)
next
  case False
  then have "old \<noteq> n" by simp
  with False show ?thesis
    by (simp add: copyProps_own_def Let_def nodes_copy_prop_fields after_copy_def)
qed

lemma copyProps_children_values:
  assumes "length ns \<le> length olds" and "distinct olds" and "\<forall>n\<in>set ns. n \<notin> set olds"
  shows "\<exists>w'. copyProps_children ns olds w = Inr w'
           \<and> (\<forall>i<length ns. nodes w' (olds ! i) = after_copy (nodes w (ns ! i)) (nodes w (olds ! i)))
           \<and> (\<forall>x. x \<notin> set (take (length ns) olds) \<longrightarrow> nodes w' x = nodes w x)"
  using assms
proof (induction ns olds w rule: copyProps_children.induct)
  case (1 olds w)
  then show ?case by simp
next
  case (2 n ns w)
  then show ?case by simp
next
  case (3 n ns old olds w)
  let ?w1 = "copyProps_own n old w"
  have n1: "nodes ?w1 = (nodes w)(old := after_copy (nodes w n) (nodes w old))"
    by (rule nodes_copyProps_own)
  from 3 obtain w' where
    r: "copyProps_children ns olds ?w1 = Inr w'" and
    v: "\<forall>i<length ns. nodes w' (olds ! i) = after_copy (nodes ?w1 (ns ! i)) (nodes ?w1 (olds ! i))" and
    f: "\<forall>x. x \<notin> set (take (length ns) olds) \<longrightarrow> nodes w' x = nodes ?w1 x"
    by auto
  have o: "old \<notin> set olds" "old \<notin> set ns" "n \<noteq> old"
    using "3.prems" by auto
  have a: "nodes w' ((old # olds) ! i) = after_copy (nodes w ((n # ns) ! i)) (nodes w ((old # olds) ! i))"
    if "i < length (n # ns)" for i
  proof (cases i)
    case 0
    have "old \<notin> set (take (length ns) olds)" using o(1) by (auto dest: in_set_takeD)
    with f have "nodes w' old = nodes ?w1 old" by simp
    with 0 show ?thesis by (simp add: n1)
  next
    case (Suc j)
    with that have j: "j < length ns" by simp
    with "3.prems"(1) have "olds ! j \<in> set olds" "ns ! j \<in> set ns" by simp_all
    with o have "olds ! j \<noteq> old" "ns ! j \<noteq> old" by auto
    with v j Suc show ?thesis by (simp add: n1)
  qed
  have b: "nodes w' x = nodes w x" if "x \<notin> set (take (length (n # ns)) (old # olds))" for x
    using that f by (simp add: n1)
  from r a b show ?case by auto
qed

subsection \<open>_replace: the removal of the trailing children, and patches in place\<close>




















subsection \<open>_replace: the attributes after the two loops\<close>














subsection \<open>_replace: soft or hard\<close>






subsection \<open>_replace: the deep-equal short cut\<close>

text \<open>
  C4, as the code has it. The candidate is soft-replaceable against the live node and
  deep-equal to it. Then \<^verbatim>\<open>_replace\<close> returns no node and calls nothing but \<^verbatim>\<open>_copyProps\<close>
  with \<^verbatim>\<open>enumerate_children\<close> true: the tree, the attributes and the children of every
  node stay as they are and no tree or attribute mutation is called; the only writes are
  assignments of \<^verbatim>\<open>value\<close>, \<^verbatim>\<open>checked\<close>, \<^verbatim>\<open>indeterminate\<close>, \<^verbatim>\<open>selected\<close> and \<^verbatim>\<open>_data\<close> on the live
  node and on its element children. Where the candidate is a tree of its own (or the live
  node itself), the live node ends with these properties copied from the candidate, and
  its element child at each position with those of the candidate's element child at that
  position; no other node changes. Where these properties agree on the two nodes and on
  each pair of element children, the world is left exactly as it was.
\<close>

theorem C4_equal_node_copies_props_only:
  assumes eff: "new1 = (case node_original_root (nodes w new0) of Some r \<Rightarrow> r | None \<Rightarrow> new0)"
    and soft: "nodeType (kind (nodes w new1)) = 1"
      "tagName (nodes w new1) = tagName (nodes w old)"
      "node_h (nodes w new1) = node_h (nodes w old)"
      "getAttribute w new1 ''caldom-v'' = getAttribute w old ''caldom-v''"
    and eq: "isEqualNode (Suc k) w new1 old = Some True"
  shows "\<exists>w'. priv_replace (Suc k) (Some new0) (Some old) p w = Inr (None, w')
          \<and> props_copied_only (insert old (set (children w old))) w w'
          \<and> (separate_or_same w new1 old \<longrightarrow>
                nodes w' old = after_copy (nodes w new1) (nodes w old)
              \<and> length (children w new1) = length (children w old)
              \<and> (\<forall>i<length (children w old).
                    nodes w' (children w old ! i)
                      = after_copy (nodes w (children w new1 ! i)) (nodes w (children w old ! i))))
          \<and> (props_agree w new1 old
               \<and> (\<forall>(n, c)\<in>set (zip (children w new1) (children w old)). props_agree w n c)
              \<longrightarrow> w' = w)"
proof -
  let ?w1 = "copyProps_own new1 old w"
  let ?ns = "children w new1"
  let ?os = "children w old"
  have f1: "props_copied_only {old} w ?w1" by (rule copyProps_own_frame)
  have ch: "children ?w1 x = children w x" for x
    using children_props_copied_only [OF f1] .
  have leq: "length ?ns = length ?os"
    using isEqualNode_children [OF eq] .
  then have len: "length ?ns \<le> length ?os" by simp
  from copyProps_children_frame [OF len, of ?w1] obtain w' where
    r: "copyProps_children ?ns ?os ?w1 = Inr w'" and
    f2: "props_copied_only (set ?os) ?w1 w'"
    by auto
  have sr: "soft_replacable w new1 old"
    using soft by (simp add: soft_replacable_def)
  have "soft_replace (priv_replace k) (Suc k) new1 old w = Inr w'"
    using eq r by (simp add: soft_replace_def priv_copyProps_def Let_def ch)
  then have res: "priv_replace (Suc k) (Some new0) (Some old) p w = Inr (None, w')"
    using sr by (simp add: Let_def eff [symmetric])
  have fr: "props_copied_only (insert old (set ?os)) w w'"
    using props_copied_only_trans [OF f1 f2] by simp
  have same: "w' = w"
    if "props_agree w new1 old" "\<forall>(n, c)\<in>set (zip ?ns ?os). props_agree w n c"
    using r copyProps_own_agree [OF that(1)] copyProps_children_agree [OF len that(2)]
    by simp
  have n1: "nodes ?w1 = (nodes w)(old := after_copy (nodes w new1) (nodes w old))"
    by (rule nodes_copyProps_own)
  have vals: "nodes w' old = after_copy (nodes w new1) (nodes w old)
              \<and> (\<forall>i<length ?os. nodes w' (?os ! i) = after_copy (nodes w (?ns ! i)) (nodes w (?os ! i)))"
    if sep: "separate_or_same w new1 old"
  proof (cases "new1 = old")
    case True
    then have "props_agree w new1 old" "\<forall>(n, c)\<in>set (zip ?ns ?os). props_agree w n c"
      by (auto simp: props_agree_def zip_same)
    from same [OF this] True show ?thesis
      by (simp add: after_copy_def)
  next
    case False
    with sep have d: "distinct ?os" "old \<notin> set ?os" "new1 \<notin> set ?os"
      and x: "\<forall>n\<in>set ?ns. n \<noteq> old \<and> n \<notin> set ?os"
      by (auto simp: separate_or_same_def list_all_iff)
    from x have x': "\<forall>n\<in>set ?ns. n \<notin> set ?os" by simp
    from copyProps_children_values [OF len d(1) x', of ?w1] r obtain
      v: "\<forall>i<length ?ns. nodes w' (?os ! i) = after_copy (nodes ?w1 (?ns ! i)) (nodes ?w1 (?os ! i))" and
      f: "\<forall>x. x \<notin> set (take (length ?ns) ?os) \<longrightarrow> nodes w' x = nodes ?w1 x"
      by auto
    have "old \<notin> set (take (length ?ns) ?os)" using d(2) by (auto dest: in_set_takeD)
    with f have top: "nodes w' old = after_copy (nodes w new1) (nodes w old)"
      by (simp add: n1)
    have "nodes w' (?os ! i) = after_copy (nodes w (?ns ! i)) (nodes w (?os ! i))"
      if "i < length ?os" for i
    proof -
      from that leq have i: "i < length ?ns" by simp
      with that have "?os ! i \<in> set ?os" "?ns ! i \<in> set ?ns" by simp_all
      with d x have "?os ! i \<noteq> old" "?ns ! i \<noteq> old" by auto
      with v i show ?thesis by (simp add: n1)
    qed
    with top show ?thesis by blast
  qed
  show ?thesis
    using res fr same vals leq by blast
qed

lemma world_input_simps:
  "nodes world_input 20 = elem ''BODY'' [] [21] None"
  "nodes world_input 21 = input_node ''typed'' (Some 20)"
  "nodes world_input 31 = input_node [] None"
  "trace world_input = []"
  by (simp_all add: world_input_def world0_def)

text \<open>
  C4 as stated fails: the candidate \<^verbatim>\<open><input>\<close> is soft-replaceable against the live
  \<^verbatim>\<open><input>\<close> and deep-equal to it, and yet reconciling assigns the live node's \<^verbatim>\<open>value\<close>:
  what the user typed is replaced by the candidate's empty value.
\<close>

theorem C4_counterexample:
  "soft_replacable world_input 31 21
   \<and> isEqualNode 1 world_input 31 21 = Some True
   \<and> prop_value (nodes world_input 21) = Some ''typed''
   \<and> map_sum fst (\<lambda>(r, w'). (r, prop_value (nodes w' 21), trace w'))
       (priv_replace 1 (Some 31) (Some 21) (Some 21) world_input)
     = Inr (None, Some [], [SetProp 21 ''value''])"
  by code_simp

lemma world_form_simps:
  "nodes world_form 21 = elem ''FORM'' [] [22, 23] (Some 20)"
  "nodes world_form 22 = input_node ''typed'' (Some 21)"
  "nodes world_form 23 = (input_node [] (Some 21))\<lparr>prop_checked := Some True\<rparr>"
  "nodes world_form 31 = (elem ''FORM'' [] [32, 33] None)\<lparr>prop_data := Some 9\<rparr>"
  "nodes world_form 32 = input_node [] (Some 31)"
  "nodes world_form 33 = input_node [] (Some 31)"
  "trace world_form = []"
  by (simp_all add: world_form_def world0_def)

theorem C4_witness:
  "map_sum fst (\<lambda>(r, w'). (r, prop_data (nodes w' 21), prop_value (nodes w' 22), prop_checked (nodes w' 23),
                           map (\<lambda>n. (attributes (nodes w' n), childNodes (nodes w' n), parentNode (nodes w' n)))
                             [21, 22, 23],
                           trace w'))
     (priv_replace 2 (Some 31) (Some 21) (Some 21) world_form)
   = Inr (None, Some 9, Some [], Some False,
          [([], [22, 23], Some 20), ([], [], Some 21), ([], [], Some 21)],
          [SetProp 21 ''_data'', SetProp 22 ''value'', SetProp 23 ''checked''])"
proof -
  have eff: "(31::nid) = (case node_original_root (nodes world_form 31) of Some r \<Rightarrow> r | None \<Rightarrow> 31)"
    and soft: "nodeType (kind (nodes world_form 31)) = 1"
      "tagName (nodes world_form 31) = tagName (nodes world_form 21)"
      "node_h (nodes world_form 31) = node_h (nodes world_form 21)"
      "getAttribute world_form 31 ''caldom-v'' = getAttribute world_form 21 ''caldom-v''"
    by (simp_all add: world_form_simps input_node_def elem_def blank_node_def getAttribute_def)
  have eq: "isEqualNode (Suc 1) world_form 31 21 = Some True"
    by code_simp
  have c: "children world_form 21 = [22, 23]" "children world_form 31 = [32, 33]"
    by (simp_all add: children_def world_form_simps input_node_def elem_def blank_node_def)
  have sep: "separate_or_same world_form 31 21"
    by (simp add: separate_or_same_def c)
  from C4_equal_node_copies_props_only [OF eff soft eq, of "Some 21"] sep
  obtain w' where
    r: "priv_replace (Suc 1) (Some 31) (Some 21) (Some 21) world_form = Inr (None, w')" and
    f: "props_copied_only (insert 21 (set (children world_form 21))) world_form w'" and
    t: "nodes w' 21 = after_copy (nodes world_form 31) (nodes world_form 21)" and
    k: "\<forall>i<length (children world_form 21).
          nodes w' (children world_form 21 ! i)
            = after_copy (nodes world_form (children world_form 31 ! i))
                (nodes world_form (children world_form 21 ! i))"
    by blast
  from k [rule_format, of 0] k [rule_format, of 1]
  have k2: "nodes w' 22 = after_copy (nodes world_form 32) (nodes world_form 22)"
    "nodes w' 23 = after_copy (nodes world_form 33) (nodes world_form 23)"
    by (simp_all add: c)
  have two: "Suc 1 = 2" by simp
  have v: "map_sum fst (\<lambda>(r, w'). trace w') (priv_replace 2 (Some 31) (Some 21) (Some 21) world_form)
            = Inr [SetProp 21 ''_data'', SetProp 22 ''value'', SetProp 23 ''checked'']"
    by code_simp
  show ?thesis
    using r [unfolded two] v t k2
    by (simp add: after_copy_def world_form_simps input_node_def elem_def blank_node_def)
qed

subsection \<open>_replace: the children of a soft-replaced node\<close>





subsection \<open>insertBefore: the two loops on a JavaScript array\<close>



lemma nth_opt_Cons [simp]:
  "nth_opt (x # xs) 0 = Some x"
  "nth_opt (x # xs) (Suc i) = nth_opt xs i"
  by (simp_all add: nth_opt_def)



lemma insert_new_elems_Nil [simp]:
  "insert_new_elems f el b (IArray []) 0 0 w = Inr w"
  by (subst insert_new_elems.simps) simp



lemma insert_items_Nil [simp]:
  "insert_items k env this f b (IArray []) 0 0 w = Inr w"
  by (subst insert_items.simps) simp













subsection \<open>insertBefore: what the insert functions leave\<close>













text \<open>The loops read a live list by index, with the length read once: \<^verbatim>\<open>append\<close> of the
  \<^verbatim>\<open>childNodes\<close> of the first list into the second moves its first and its third item, and
  leaves the second and the fourth, which have moved up in the list meanwhile. An array
  of the same four nodes is moved whole.\<close>

lemma append_of_a_live_list:
  "map_sum fst (\<lambda>w'. (childNodes (nodes w' 21), childNodes (nodes w' 22)))
     (append' 0 (env_update_returns False) 7 [IChildNodes 21] world_lists)
   = Inr ([24, 26], [27, 23, 25])
   \<and> map_sum fst (\<lambda>w'. (childNodes (nodes w' 21), childNodes (nodes w' 22)))
       (append' 0 (env_update_returns False) 7 [IArray [INode 23, INode 24, INode 25, INode 26]] world_lists)
     = Inr ([], [27, 23, 24, 25, 26])"
  by code_simp


subsection \<open>init: the mode of an empty collection\<close>

text \<open>
  C8 at an empty collection. \<^verbatim>\<open>_()\<close>, the constructor without a selector, leaves the
  collection empty and in single mode: \<^verbatim>\<open>init\<close> calls \<^verbatim>\<open>_setMultipleMode\<close> only inside
  \<^verbatim>\<open>if( selector_xpath_caldom_elems )\<close>. So \<^verbatim>\<open>_().attr("id", "x")\<close> runs \<^verbatim>\<open>_attrSingle\<close>, which
  reads \<^verbatim>\<open>this.elems[0].setAttribute\<close> on undefined: a TypeError, where a broadcast over no
  element does nothing. A query that finds nothing goes through \<^verbatim>\<open>_setMultipleMode\<close>, and
  there \<^verbatim>\<open>attr\<close> does nothing.
\<close>

theorem C8_empty_collection_single_mode:
  "map_sum fst (\<lambda>(c, w). (elems (comps w c), multiple (comps w c)))
     (new_CalDom 0 (env_update_returns False) SFalsy None world_insert) = Inr ([], False)
   \<and> map_sum fst trace
       (bindE (new_CalDom 0 (env_update_returns False) SFalsy None world_insert)
          (\<lambda>(c, w). attr ''id'' (Val ''x'') c w)) = Inl TypeError
   \<and> map_sum fst (\<lambda>(c, w). (elems (comps w c), multiple (comps w c)))
       (new_CalDom 0 (env_update_returns False) (SQuery ''p'') None world_insert) = Inr ([], True)
   \<and> map_sum fst trace
       (bindE (new_CalDom 0 (env_update_returns False) (SQuery ''p'') None world_insert)
          (\<lambda>(c, w). attr ''id'' (Val ''x'') c w)) = Inr []"
  by code_simp

end
